theory Spec2Isabelle
  imports Complex_Main "HOL-Library.Word"
begin

section \<open>JavaScript values\<close>

text \<open>
  The wallet bridge receives its requests as parsed JSON, and several of its functions are
  typed \<^verbatim>\<open>any\<close>. Such data is a \<open>jsval\<close>. A number is an integer here (no function
  below does arithmetic on a request's numbers), a string is a list of characters, and an
  object is its list of own properties, looked up by name.
\<close>

datatype js_error =
    TypeError
  | Error string

datatype jsval =
    JUndefined
  | JNull
  | JBool bool
  | JNum int
  | JStr string
  | JArr "jsval list"
  | JObj "(string \<times> jsval) list"

text \<open>
  \<^verbatim>\<open>e.message\<close>. The text of an engine-made TypeError depends on the engine; it is
  represented by one fixed string.
\<close>

fun message_of :: "js_error \<Rightarrow> string" where
  "message_of TypeError = ''TypeError''"
| "message_of (Error m) = m"

text \<open>
  Property access \<^verbatim>\<open>a.k\<close> for a property name \<open>k\<close> that is not an array index. Reading a
  property of \<^verbatim>\<open>undefined\<close> or \<^verbatim>\<open>null\<close> throws a TypeError; a missing property reads as
  \<^verbatim>\<open>undefined\<close>; arrays and strings have a \<^verbatim>\<open>length\<close>.
\<close>

fun get_prop :: "jsval \<Rightarrow> string \<Rightarrow> js_error + jsval" where
  "get_prop JUndefined k = Inl TypeError"
| "get_prop JNull k = Inl TypeError"
| "get_prop (JObj fs) k = Inr (case map_of fs k of None \<Rightarrow> JUndefined | Some v \<Rightarrow> v)"
| "get_prop (JArr xs) k = Inr (if k = ''length'' then JNum (int (length xs)) else JUndefined)"
| "get_prop (JStr s) k = Inr (if k = ''length'' then JNum (int (length s)) else JUndefined)"
| "get_prop (JBool b) k = Inr JUndefined"
| "get_prop (JNum n) k = Inr JUndefined"

text \<open>The same access where the receiver is known not to be \<^verbatim>\<open>undefined\<close> or \<^verbatim>\<open>null\<close>.\<close>

definition field :: "jsval \<Rightarrow> string \<Rightarrow> jsval" where
  "field a k = (case get_prop a k of Inl e \<Rightarrow> JUndefined | Inr v \<Rightarrow> v)"

text \<open>Truthiness, as \<^verbatim>\<open>if (v)\<close>, \<^verbatim>\<open>!v\<close> and \<^verbatim>\<open>a && b\<close> test it.\<close>

fun truthy :: "jsval \<Rightarrow> bool" where
  "truthy JUndefined = False"
| "truthy JNull = False"
| "truthy (JBool b) = b"
| "truthy (JNum n) = (n \<noteq> 0)"
| "truthy (JStr s) = (s \<noteq> [])"
| "truthy (JArr xs) = True"
| "truthy (JObj fs) = True"

text \<open>
  \<^verbatim>\<open>xs.map(f)\<close> with a callback that may throw: the elements are visited in order and the
  first exception ends the call.
\<close>

fun map_throw :: "('a \<Rightarrow> js_error + 'b) \<Rightarrow> 'a list \<Rightarrow> js_error + 'b list" where
  "map_throw f [] = Inr []"
| "map_throw f (x # xs) =
     (case f x of
        Inl e \<Rightarrow> Inl e
      | Inr y \<Rightarrow> (case map_throw f xs of Inl e \<Rightarrow> Inl e | Inr ys \<Rightarrow> Inr (y # ys)))"

text \<open>\<^verbatim>\<open>v.map(f)\<close> for a value of unknown shape: only an array has \<^verbatim>\<open>map\<close>.\<close>

definition js_map :: "(jsval \<Rightarrow> js_error + 'b) \<Rightarrow> jsval \<Rightarrow> js_error + 'b list" where
  "js_map f v = (case v of JArr xs \<Rightarrow> map_throw f xs | _ \<Rightarrow> Inl TypeError)"

fun returns :: "'e + 'a \<Rightarrow> bool" where
  "returns (Inr y) = True"
| "returns (Inl e) = False"


section \<open>The data of helpers.js\<close>

record account =
  scriptHash :: string
  publicKey :: string
  privateKey :: string

text \<open>
  A \<^verbatim>\<open>tx.Signer\<close> object. \<open>scopes\<close> holds whatever the code assigns to it, which need not
  be one of the numbers of \<^verbatim>\<open>WitnessScope\<close>.
\<close>

record signer =
  signer_account :: string
  scopes :: jsval
  allowedContracts :: "jsval list"
  allowedGroups :: "jsval list"

text \<open>The numbers of the type \<^verbatim>\<open>WitnessScope\<close>.\<close>

definition None_scope :: jsval where "None_scope = JNum 0"
definition CalledByEntry :: jsval where "CalledByEntry = JNum 1"
definition CustomContracts :: jsval where "CustomContracts = JNum 16"
definition CustomGroups :: jsval where "CustomGroups = JNum 32"
definition Global :: jsval where "Global = JNum 128"

record contract_invocation =
  ci_scriptHash :: string
  operation :: string
  args :: jsval
  abortOnFail :: bool

record contract_invocation_multi =
  signers :: jsval
  invocations :: "contract_invocation list"

record signed_message =
  sm_publicKey :: string
  data :: string
  salt :: string
  messageHex :: string

text \<open>
  What the script builder has been asked to emit: \<^verbatim>\<open>sb.emitContractCall\<close> and
  \<^verbatim>\<open>sb.emit(0x39)\<close>. The bytes that \<^verbatim>\<open>sb.build()\<close> makes of them are the library's.
\<close>

datatype script_op =
    ContractCall string string "jsval list"
  | Emit nat

record witness =
  verificationScript :: string
  invocationScript :: string

text \<open>
  A \<^verbatim>\<open>tx.Transaction\<close>, with the fields this code passes to its constructor or sets.
  The constructor is the library's: what it makes of the values it is given is not fixed
  here. The fields this code never touches (fees, nonce, attributes) stay inside the
  library functions that fill them.
\<close>

record transaction =
  script :: "script_op list"
  validUntilBlock :: nat
  tx_signers :: "signer list"
  witnesses :: "witness list"

type_synonym signing_callback = "transaction \<Rightarrow> js_error + string"


section \<open>The library and the node\<close>

text \<open>
  neon-js is not part of this repository. Each of its functions that helpers.js calls is a
  parameter, collected in the record \<open>neon\<close>; a function that helpers.js hands request data
  to may throw. \<open>new_Signer h\<close> is \<^verbatim>\<open>new tx.Signer({ account: h })\<close>,
  \<open>new_Transaction s v sgs\<close> is
  \<^verbatim>\<open>new tx.Transaction({ script: s, validUntilBlock: v, signers: sgs })\<close>, and \<open>facade_sign\<close>
  is the promise of \<^verbatim>\<open>facade.sign\<close> (\<open>Inl\<close> when it rejects).
\<close>

record neon =
  hash160 :: "jsval \<Rightarrow> js_error + jsval"
  array :: "jsval list \<Rightarrow> js_error + jsval"
  fromHex :: "jsval \<Rightarrow> js_error + jsval"
  new_Signer :: "string \<Rightarrow> signer"
  new_Transaction :: "script_op list \<Rightarrow> nat \<Rightarrow> signer list \<Rightarrow> transaction"
  str2hexstring :: "string \<Rightarrow> string"
  num2VarInt :: "rat \<Rightarrow> string"
  sign :: "string \<Rightarrow> string \<Rightarrow> string"
  verify :: "string \<Rightarrow> string \<Rightarrow> string \<Rightarrow> bool"
  getVerificationScriptFromPublicKey :: "string \<Rightarrow> string"
  addFees :: "transaction \<Rightarrow> nat \<Rightarrow> account \<Rightarrow> js_error + transaction"
  fromConfig :: "js_error + unit"
  facade_sign :: "transaction \<Rightarrow> signing_callback option \<Rightarrow> js_error + transaction"
  tx_sign :: "transaction \<Rightarrow> account \<Rightarrow> nat \<Rightarrow> js_error + transaction"

text \<open>
  The RPC node at \<^verbatim>\<open>rpcAddress\<close>: the answers it gives to the calls of helpers.js.
  \<open>getMagicOfRpcAddress\<close> is the network number of its \<^verbatim>\<open>getversion\<close> answer.
\<close>

record rpc_node =
  getMagicOfRpcAddress :: "js_error + nat"
  getBlockCount :: "js_error + nat"
  invokeScript :: "script_op list \<Rightarrow> signer list \<Rightarrow> js_error + jsval"
  sendRawTransaction :: "transaction option \<Rightarrow> js_error + jsval"


section \<open>Parameter conversion\<close>

lemma map_of_size: "map_of fs k = Some v \<Longrightarrow> size v < size (JObj fs)"
  by (induction fs) (auto split: if_splits)

lemma get_prop_size:
  "get_prop a k = Inr v \<Longrightarrow> k \<noteq> ''length'' \<Longrightarrow> v \<noteq> JUndefined \<Longrightarrow> size v < size a"
  by (cases a) (auto split: option.splits dest: map_of_size)

text \<open>
  \<^verbatim>\<open>convertParams(args)\<close> is \<^verbatim>\<open>args.map(a => ...)\<close>: \<open>convertParams\<close> is the call on a value
  of any shape, \<open>convertEach\<close> the walk of \<^verbatim>\<open>map\<close> over the elements, and \<open>convertArg\<close> the
  arrow function applied to one element.
\<close>

function convertParams :: "neon \<Rightarrow> jsval \<Rightarrow> js_error + jsval list"
  and convertEach :: "neon \<Rightarrow> jsval list \<Rightarrow> js_error + jsval list"
  and convertArg :: "neon \<Rightarrow> jsval \<Rightarrow> js_error + jsval"
where
  "convertParams L arglist =
     (case arglist of JArr xs \<Rightarrow> convertEach L xs | _ \<Rightarrow> Inl TypeError)"
| "convertEach L [] = Inr []"
| "convertEach L (a # as) =
     (case convertArg L a of
        Inl e \<Rightarrow> Inl e
      | Inr b \<Rightarrow> (case convertEach L as of Inl e \<Rightarrow> Inl e | Inr bs \<Rightarrow> Inr (b # bs)))"
| "convertArg L a =
     (case get_prop a ''value'' of
        Inl e \<Rightarrow> Inl e
      | Inr v \<Rightarrow>
          if v = JUndefined then Inr a
          else (case get_prop a ''type'' of
                  Inl e \<Rightarrow> Inl e
                | Inr t \<Rightarrow>
                    if t = JStr ''Address'' then hash160 L v
                    else if t = JStr ''ScriptHash'' then hash160 L v
                    else if t = JStr ''Array'' then
                      (case convertParams L v of Inl e \<Rightarrow> Inl e | Inr ys \<Rightarrow> array L ys)
                    else Inr a))"
  by pat_completeness auto
termination
  apply (relation "measure (\<lambda>x. case x of
            Inl (L, arglist) \<Rightarrow> 2 * size arglist
          | Inr (Inl (L, xs)) \<Rightarrow> 2 * size_list size xs + 1
          | Inr (Inr (L, a)) \<Rightarrow> 2 * size a + 1)")
  apply (auto dest: get_prop_size)
  done

declare convertParams.simps [simp del] convertArg.simps [simp del]

text \<open>
  The elements on which the arrow function returns: not \<^verbatim>\<open>undefined\<close> or \<^verbatim>\<open>null\<close>; when
  typed Address or ScriptHash, with a value that the library's \<^verbatim>\<open>hash160\<close> accepts; when
  typed Array, with an array as value whose elements are convertible in turn and whose
  converted elements the library's \<^verbatim>\<open>array\<close> accepts.
\<close>

function convertible :: "neon \<Rightarrow> jsval \<Rightarrow> bool" where
  "convertible L a =
     (case get_prop a ''value'' of
        Inl e \<Rightarrow> False
      | Inr v \<Rightarrow>
          if v = JUndefined then True
          else (case get_prop a ''type'' of
                  Inl e \<Rightarrow> False
                | Inr t \<Rightarrow>
                    if t = JStr ''Address'' \<or> t = JStr ''ScriptHash'' then returns (hash160 L v)
                    else if t = JStr ''Array'' then
                      (case v of
                         JArr xs \<Rightarrow>
                           list_all (convertible L) xs \<and>
                           (case convertEach L xs of
                              Inl e \<Rightarrow> False
                            | Inr ys \<Rightarrow> returns (array L ys))
                       | _ \<Rightarrow> False)
                    else True))"
  by pat_completeness auto
termination
  apply (relation "measure (\<lambda>(L, a). size a)")
   apply simp
  subgoal for L a v t xs x
    using get_prop_size[of a "''value''" v] size_list_estimation'[of x xs "size x" size]
    by auto
  done

declare convertible.simps [simp del]


section \<open>Signers\<close>

text \<open>
  \<^verbatim>\<open>buildSigner(account, signerEntry?)\<close>. \<^verbatim>\<open>signerEntry && signerEntry.scopes\<close> is
  \<^verbatim>\<open>signerEntry\<close> itself when that is falsy.
\<close>

definition buildSigner :: "neon \<Rightarrow> account \<Rightarrow> jsval \<Rightarrow> js_error + signer" where
  "buildSigner L acct signerEntry =
     (let signer0 = new_Signer L (scriptHash acct);
          signer1 = signer0\<lparr>scopes :=
            (if truthy signerEntry then field signerEntry ''scopes'' else signerEntry)\<rparr>
      in case (if truthy signerEntry \<and> truthy (field signerEntry ''allowedContracts'')
               then (case js_map (fromHex L) (field signerEntry ''allowedContracts'') of
                       Inl e \<Rightarrow> Inl e
                     | Inr cs \<Rightarrow> Inr (signer1\<lparr>allowedContracts := cs\<rparr>))
               else Inr signer1) of
           Inl e \<Rightarrow> Inl e
         | Inr signer2 \<Rightarrow>
             if truthy signerEntry \<and> truthy (field signerEntry ''allowedGroups'')
             then (case js_map (fromHex L) (field signerEntry ''allowedGroups'') of
                     Inl e \<Rightarrow> Inl e
                   | Inr gs \<Rightarrow> Inr (signer2\<lparr>allowedGroups := gs\<rparr>))
             else Inr signer2)"

text \<open>
  \<^verbatim>\<open>buildMultipleSigner(account, signers = [])\<close>: the default replaces \<^verbatim>\<open>undefined\<close> only.
\<close>

definition buildMultipleSigner :: "neon \<Rightarrow> account \<Rightarrow> jsval \<Rightarrow> js_error + signer list" where
  "buildMultipleSigner L acct signers0 =
     (let signers1 = (if signers0 = JUndefined then JArr [] else signers0)
      in case get_prop signers1 ''length'' of
           Inl e \<Rightarrow> Inl e
         | Inr len \<Rightarrow>
             if \<not> truthy len
             then (case buildSigner L acct JUndefined of
                     Inl e \<Rightarrow> Inl e
                   | Inr s \<Rightarrow> Inr [s])
             else js_map (buildSigner L acct) signers1)"


section \<open>Message signing\<close>

text \<open>
  \<^verbatim>\<open>randomBytes(16).toString('hex')\<close>: the bytes come from a source of randomness \<open>rng\<close>
  (byte \<open>i\<close> of the call is \<open>rng i\<close>); a buffer prints as two lower-case hexadecimal digits
  per byte.
\<close>

definition randomBytes :: "(nat \<Rightarrow> 8 word) \<Rightarrow> nat \<Rightarrow> 8 word list" where
  "randomBytes rng n = map rng [0..<n]"

definition hex_digit :: "nat \<Rightarrow> char" where
  "hex_digit d = ''0123456789abcdef'' ! (d mod 16)"

definition toString_hex :: "8 word list \<Rightarrow> string" where
  "toString_hex bs = concat (map (\<lambda>b. [hex_digit (unat b div 16), hex_digit (unat b mod 16)]) bs)"

definition is_hex_char :: "char \<Rightarrow> bool" where
  "is_hex_char c = (c \<in> set ''0123456789abcdef'')"

definition signMessage :: "neon \<Rightarrow> (nat \<Rightarrow> 8 word) \<Rightarrow> account \<Rightarrow> string \<Rightarrow> signed_message" where
  "signMessage L rng acct message =
     (let salt0 = toString_hex (randomBytes rng 16);
          parameterHexString = str2hexstring L (salt0 @ message);
          lengthHex = num2VarInt L (of_nat (length parameterHexString) / 2);
          messageHex0 = ''010001f0'' @ lengthHex @ parameterHexString @ ''0000''
      in \<lparr> sm_publicKey = publicKey acct,
           data = sign L messageHex0 (privateKey acct),
           salt = salt0,
           messageHex = messageHex0 \<rparr>)"

definition verifyMessage :: "neon \<Rightarrow> signed_message \<Rightarrow> bool" where
  "verifyMessage L verifyArgs =
     verify L (messageHex verifyArgs) (data verifyArgs) (sm_publicKey verifyArgs)"


section \<open>Invocation\<close>

text \<open>
  The loop \<^verbatim>\<open>cim.invocations.forEach\<close> of both invoke functions: one contract call per
  invocation with its converted arguments, followed by opcode \<^verbatim>\<open>0x39\<close> when the invocation
  aborts on failure. An exception of \<open>convertParams\<close> leaves the loop.
\<close>

fun emitInvocations :: "neon \<Rightarrow> contract_invocation list \<Rightarrow> js_error + script_op list" where
  "emitInvocations L [] = Inr []"
| "emitInvocations L (c # cs) =
     (case convertParams L (args c) of
        Inl e \<Rightarrow> Inl e
      | Inr converted \<Rightarrow>
          (case emitInvocations L cs of
             Inl e \<Rightarrow> Inl e
           | Inr ops \<Rightarrow>
               Inr (ContractCall (ci_scriptHash c) (operation c) converted
                    # (if abortOnFail c then [Emit 0x39] else []) @ ops)))"

definition multiTestInvoke ::
  "neon \<Rightarrow> rpc_node \<Rightarrow> account \<Rightarrow> contract_invocation_multi \<Rightarrow> js_error + jsval" where
  "multiTestInvoke L N acct cim =
     (case emitInvocations L (invocations cim) of
        Inl e \<Rightarrow> Inl e
      | Inr ops \<Rightarrow>
          (case buildMultipleSigner L acct (signers cim) of
             Inl e \<Rightarrow> Inl e
           | Inr sgs \<Rightarrow> invokeScript N ops sgs))"

text \<open>What \<^verbatim>\<open>multiInvoke\<close> does that can be seen from outside, in the order it does it.\<close>

datatype invoke_event =
    ShowInfoNotification
  | HideNotification jsval
  | ConsoleError js_error
  | SendRawTransaction "transaction option"

text \<open>
  The part of \<^verbatim>\<open>multiInvoke\<close> before the branch on \<^verbatim>\<open>isHardwareLogin\<close>: network magic,
  script, block height, the transaction that the library constructs from the script, the
  validity horizon and the signer list, the placeholder witness assigned to it, fees.
\<close>

definition buildTransaction ::
  "neon \<Rightarrow> rpc_node \<Rightarrow> account \<Rightarrow> contract_invocation_multi \<Rightarrow> js_error + (transaction \<times> nat)" where
  "buildTransaction L N acct cim =
     (case getMagicOfRpcAddress N of
        Inl e \<Rightarrow> Inl e
      | Inr networkMagic \<Rightarrow>
     (case emitInvocations L (invocations cim) of
        Inl e \<Rightarrow> Inl e
      | Inr ops \<Rightarrow>
     (case getBlockCount N of
        Inl e \<Rightarrow> Inl e
      | Inr currentHeight \<Rightarrow>
     (case buildMultipleSigner L acct (signers cim) of
        Inl e \<Rightarrow> Inl e
      | Inr sgs \<Rightarrow>
          (let trx = (new_Transaction L ops (currentHeight + 100) sgs)
                       \<lparr>witnesses :=
                          [\<lparr> verificationScript =
                               getVerificationScriptFromPublicKey L (publicKey acct),
                             invocationScript = [] \<rparr>]\<rparr>
           in case addFees L trx networkMagic acct of
                Inl e \<Rightarrow> Inl e
              | Inr trx' \<Rightarrow> Inr (trx', networkMagic))))))"

text \<open>
  \<^verbatim>\<open>multiInvoke\<close>. \<open>showInfoNotification\<close> is the notification identifier that the optional
  callback returns, \<open>hideNotification\<close> says whether that callback was given. In the hardware
  branch \<^verbatim>\<open>trx = await facade.sign(trx, signingConfig).catch(console.error)\<close> leaves
  \<^verbatim>\<open>undefined\<close> in \<^verbatim>\<open>trx\<close> when the promise rejects.
\<close>

definition multiInvoke ::
  "neon \<Rightarrow> rpc_node \<Rightarrow> account \<Rightarrow> contract_invocation_multi \<Rightarrow> bool \<Rightarrow>
   signing_callback option \<Rightarrow> jsval option \<Rightarrow> bool \<Rightarrow> invoke_event list \<times> (js_error + jsval)" where
  "multiInvoke L N acct cim isHardwareLogin signingFunction showInfoNotification hideNotification =
     (case buildTransaction L N acct cim of
        Inl e \<Rightarrow> ([], Inl e)
      | Inr (trx, networkMagic) \<Rightarrow>
          if isHardwareLogin then
            (case fromConfig L of
               Inl e \<Rightarrow> ([], Inl e)
             | Inr u \<Rightarrow>
                 (let notificationId =
                        (case showInfoNotification of None \<Rightarrow> JUndefined | Some i \<Rightarrow> i);
                      shown = (case showInfoNotification of
                                 None \<Rightarrow> [] | Some i \<Rightarrow> [ShowInfoNotification]);
                      (logged, trx') =
                        (case facade_sign L trx signingFunction of
                           Inl e \<Rightarrow> ([ConsoleError e], None)
                         | Inr strx \<Rightarrow> ([], Some strx));
                      hidden = (if hideNotification \<and> truthy notificationId
                                then [HideNotification notificationId] else [])
                  in (shown @ logged @ hidden @ [SendRawTransaction trx'],
                      sendRawTransaction N trx')))
          else
            (case tx_sign L trx acct networkMagic of
               Inl e \<Rightarrow> ([], Inl e)
             | Inr strx \<Rightarrow>
                 ([SendRawTransaction (Some strx)], sendRawTransaction N (Some strx))))"


section \<open>The session controller: data\<close>

record jsonrpc_request =
  req_id :: int
  jsonrpc :: string
  req_method :: string
  params :: jsval

record request_event =
  topic :: string
  request :: jsonrpc_request

text \<open>
  A session proposal with the two lists the controller reads:
  \<^verbatim>\<open>proposal.permissions.blockchain.chains\<close> and \<^verbatim>\<open>proposal.permissions.jsonrpc.methods\<close>.
\<close>

record proposal =
  proposal_topic :: string
  permissions_chains :: "string list"
  permissions_methods :: "string list"

record session =
  session_topic :: string

text \<open>The WalletConnect client object, as far as the controller reads it.\<close>

record client =
  session_values :: "session list"
  history_pending :: "request_event list"

record options =
  chainIds :: "string list"
  methods :: "string list"

text \<open>
  \<^verbatim>\<open>makeRequest\<close> is called with the request by the event handler and with the whole
  request event by \<^verbatim>\<open>approveAndMakeRequest\<close>.
\<close>

datatype payload =
    OfRequest jsonrpc_request
  | OfEvent request_event

text \<open>
  The promise that the registered \<^verbatim>\<open>onRequestCallback\<close> returns is fulfilled or rejected;
  \<open>Raised\<close> is a callback that throws before it returns a promise.
\<close>

datatype outcome =
    Fulfilled jsval
  | Rejected js_error
  | Raised js_error

type_synonym request_callback = "jsval \<Rightarrow> string \<Rightarrow> payload \<Rightarrow> outcome"

text \<open>
  A response handed to \<^verbatim>\<open>wcClient.respond\<close>: what the request callback produced, or
  \<^verbatim>\<open>formatJsonRpcError(id, message)\<close>.
\<close>

datatype response =
    Result jsval
  | JsonRpcError int string

definition formatJsonRpcError :: "int \<Rightarrow> string \<Rightarrow> response" where
  "formatJsonRpcError i m = JsonRpcError i m"

text \<open>
  The calls that leave the controller, in order. \<open>Respond\<close> is a response that the client
  delivered, \<open>RespondFailed\<close> one that it threw on. Every \<open>Disconnect\<close> carries the reason
  \<^verbatim>\<open>ERROR.USER_DISCONNECTED\<close>.
\<close>

datatype wc_event =
    Respond string response
  | RespondFailed string response js_error
  | RejectProposal proposal
  | Disconnect string
  | DisconnectFailed string js_error
  | LogError js_error
  | RequestCallback jsval string payload
  | AutoAcceptCallback jsval jsval jsonrpc_request

text \<open>
  What lies outside the controller: \<^verbatim>\<open>JSON.stringify\<close> on a request, whether
  \<^verbatim>\<open>wcClient.respond\<close> delivers (\<open>None\<close>) or throws, and what \<^verbatim>\<open>wcClient.disconnect\<close> does to
  the client.
\<close>

record wc_env =
  JSON_stringify :: "jsonrpc_request \<Rightarrow> string"
  respond :: "string \<Rightarrow> response \<Rightarrow> js_error option"
  disconnect :: "client \<Rightarrow> string \<Rightarrow> js_error option \<times> client"

text \<open>
  The state variables of \<^verbatim>\<open>WalletConnectContextProvider\<close>, the two stores, and the trace
  of outside calls. \<open>storage\<close> is the key-value store that holds the approval cache,
  \<open>localStorage\<close> the browser store that \<^verbatim>\<open>clearStorage\<close> walks.
\<close>

record wc_state =
  wcClient :: "client option"
  storage :: "string \<Rightarrow> jsval option"
  localStorage :: "(string \<times> string) list"
  sessionProposals :: "proposal list"
  initialized :: bool
  chains :: "string list"
  accounts :: "string list"
  sessions :: "session list"
  requests :: "request_event list"
  results :: "jsval list"
  onRequestCallback :: "request_callback option"
  autoAcceptCallback :: "(jsval \<Rightarrow> jsval \<Rightarrow> jsonrpc_request \<Rightarrow> js_error + jsval) option"
  txHash :: jsval
  messageVerification :: jsval
  error :: jsval
  trace :: "wc_event list"

definition log_event :: "wc_event \<Rightarrow> wc_state \<Rightarrow> wc_state" where
  "log_event ev st = st\<lparr>trace := trace st @ [ev]\<rparr>"

text \<open>The responses that were delivered, with their topics, in order.\<close>

fun delivered :: "wc_event list \<Rightarrow> (string \<times> response) list" where
  "delivered [] = []"
| "delivered (Respond t r # evs) = (t, r) # delivered evs"
| "delivered (ev # evs) = delivered evs"

text \<open>The calls of the request callback and of the auto-accept callback, in order.\<close>

fun request_calls :: "wc_event list \<Rightarrow> (jsval \<times> string \<times> payload) list" where
  "request_calls [] = []"
| "request_calls (RequestCallback a c pl # evs) = (a, c, pl) # request_calls evs"
| "request_calls (ev # evs) = request_calls evs"

text \<open>The disconnects that failed, in order.\<close>

fun failed_disconnects :: "wc_event list \<Rightarrow> (string \<times> js_error) list" where
  "failed_disconnects [] = []"
| "failed_disconnects (DisconnectFailed t e # evs) = (t, e) # failed_disconnects evs"
| "failed_disconnects (ev # evs) = failed_disconnects evs"

fun auto_accept_calls :: "wc_event list \<Rightarrow> (jsval \<times> jsval \<times> jsonrpc_request) list" where
  "auto_accept_calls [] = []"
| "auto_accept_calls (AutoAcceptCallback a c r # evs) = (a, c, r) # auto_accept_calls evs"
| "auto_accept_calls (ev # evs) = auto_accept_calls evs"


section \<open>The session controller: operations\<close>

text \<open>
  Each function of the provider is modelled as one run: it is given the state at the time
  it runs and returns the state after its updates. A function that can throw returns the
  state it reached together with \<open>Inl\<close> the exception or \<open>Inr\<close> its value.

  Two values are not read from that state, because the source does not read them from the
  latest render. They are parameters:
  \<^item> \<open>held\<close>: \<^verbatim>\<open>makeRequest\<close> is memoised on \<^verbatim>\<open>[accounts]\<close> alone, so the
    \<^verbatim>\<open>onRequestCallback\<close> it calls is the one of the render in which the accounts last
    changed, which need not be the callback registered now.
  \<^item> \<open>captured\<close>: \<^verbatim>\<open>removeFromPending\<close> filters the \<^verbatim>\<open>requests\<close> array of the render
    that created it and stores the result, with no functional update; after the awaits of
    \<^verbatim>\<open>approveRequest\<close> and \<^verbatim>\<open>rejectRequest\<close> that array need not be the current one.

  An event handler is modelled as one run of the handler that the latest subscription
  registered, whose captured accounts, chains and auto-accept callback are those of the
  state. The source registers a handler at every subscription and removes none, so one
  event can run several.
\<close>

text \<open>
  \<^verbatim>\<open>clearStorage\<close>: the first loop collects the keys that begin with \<^verbatim>\<open>wc\<close>, the second
  removes them.
\<close>

definition clearStorage :: "wc_state \<Rightarrow> wc_state" where
  "clearStorage st =
     (let arr = filter (\<lambda>k. take 2 k = ''wc'') (map fst (localStorage st))
      in st\<lparr>localStorage :=
              foldl (\<lambda>ls k. filter (\<lambda>kv. fst kv \<noteq> k) ls) (localStorage st) arr\<rparr>)"

text \<open>
  \<^verbatim>\<open>sessions.map(session => wcClient && wcClient.disconnect(...))\<close> under \<^verbatim>\<open>Promise.all\<close>:
  every disconnect is issued; the result is the first failure in list order, if any.
\<close>

fun disconnectEach :: "wc_env \<Rightarrow> wc_state \<Rightarrow> string list \<Rightarrow> wc_state \<times> js_error option" where
  "disconnectEach E st [] = (st, None)"
| "disconnectEach E st (t # ts) =
     (case wcClient st of
        None \<Rightarrow> disconnectEach E st ts
      | Some c \<Rightarrow>
          (case disconnect E c t of
             (None, c') \<Rightarrow>
               disconnectEach E (log_event (Disconnect t) (st\<lparr>wcClient := Some c'\<rparr>)) ts
           | (Some e, c') \<Rightarrow>
               (case disconnectEach E
                       (log_event (DisconnectFailed t e) (st\<lparr>wcClient := Some c'\<rparr>)) ts of
                  (st', r) \<Rightarrow> (st', Some e))))"

text \<open>
  \<^verbatim>\<open>resetApp\<close>. The whole body is inside \<^verbatim>\<open>try\<close>; the handler logs the exception, so the
  function has no exceptional result. A failed disconnect skips the rest of the body.
\<close>

definition resetApp :: "wc_env \<Rightarrow> wc_state \<Rightarrow> wc_state" where
  "resetApp E st =
     (case (if sessions st \<noteq> []
            then disconnectEach E st (map session_topic (sessions st))
            else (st, None)) of
        (st1, Some e) \<Rightarrow> log_event (LogError e) st1
      | (st1, None) \<Rightarrow>
          (case (case wcClient st1 of
                   None \<Rightarrow> (st1, None)
                 | Some c \<Rightarrow>
                     if session_values c \<noteq> []
                     then disconnectEach E st1 (map session_topic (session_values c))
                     else (st1, None)) of
             (st2, Some e) \<Rightarrow> log_event (LogError e) st2
           | (st2, None) \<Rightarrow>
               (clearStorage st2)
                 \<lparr>wcClient := None, sessionProposals := [], initialized := False,
                  accounts := [], sessions := [], requests := [], results := []\<rparr>))"

text \<open>\<^verbatim>\<open>s.split(':')\<close> and the reading of its first three parts in \<^verbatim>\<open>makeRequest\<close>.\<close>

fun split_on :: "char \<Rightarrow> string \<Rightarrow> string list" where
  "split_on c [] = [[]]"
| "split_on c (x # xs) =
     (if x = c then [] # split_on c xs
      else (case split_on c xs of
              [] \<Rightarrow> [[x]]
            | w # ws \<Rightarrow> (x # w) # ws))"

definition part :: "string list \<Rightarrow> nat \<Rightarrow> jsval" where
  "part ps i = (if i < length ps then JStr (ps ! i) else JUndefined)"

text \<open>A value inside a template literal, for the two shapes that occur.\<close>

definition template :: "jsval \<Rightarrow> string" where
  "template v = (case v of JStr s \<Rightarrow> s | _ \<Rightarrow> ''undefined'')"

text \<open>
  \<^verbatim>\<open>const [namespace, reference, address] = accounts[0].split(':')\<close> and
  \<^verbatim>\<open>const chainId = `${namespace}:${reference}`\<close>, for the account string \<open>acc\<close>.
\<close>

definition address_of :: "string \<Rightarrow> jsval" where
  "address_of acc = part (split_on CHR '':'' acc) 2"

definition chainId_of :: "string \<Rightarrow> string" where
  "chainId_of acc =
     template (part (split_on CHR '':'' acc) 0) @ '':'' @
     template (part (split_on CHR '':'' acc) 1)"

text \<open>\<^verbatim>\<open>request.method\<close> of what \<^verbatim>\<open>makeRequest\<close> was given.\<close>

fun payload_method :: "payload \<Rightarrow> jsval" where
  "payload_method (OfRequest r) = JStr (req_method r)"
| "payload_method (OfEvent ev) = JUndefined"

text \<open>\<^verbatim>\<open>{ ...results, method: request.method }\<close>.\<close>

definition spread_method :: "jsval \<Rightarrow> jsval \<Rightarrow> jsval" where
  "spread_method res m =
     (case res of
        JObj fs \<Rightarrow>
          JObj (if ''method'' \<in> set (map fst fs)
                then map (\<lambda>kv. if fst kv = ''method'' then (''method'', m) else kv) fs
                else fs @ [(''method'', m)])
      | _ \<Rightarrow> JObj [(''method'', m)])"

text \<open>
  The part of \<^verbatim>\<open>makeRequest\<close> after the callback: the three-way branch on \<^verbatim>\<open>results\<close>.
  The last branch destructures \<^verbatim>\<open>results\<close>, which throws on \<^verbatim>\<open>undefined\<close> and \<^verbatim>\<open>null\<close>.
\<close>

definition settle :: "wc_state \<Rightarrow> payload \<Rightarrow> jsval \<Rightarrow> wc_state \<times> (js_error + jsval)" where
  "settle st pl res =
     (let good = truthy res \<and> truthy (field res ''result'') \<and>
                 \<not> truthy (field (field res ''result'') ''error'') \<and>
                 \<not> truthy (field (field res ''result'') ''isTest'')
      in if good \<and> \<not> truthy (field res ''isMessage'')
         then (st\<lparr>txHash := field res ''result''\<rparr>, Inr res)
         else if good \<and> truthy (field res ''isMessage'')
         then (st\<lparr>messageVerification := spread_method res (payload_method pl)\<rparr>, Inr res)
         else (case get_prop res ''result'' of
                 Inl e \<Rightarrow> (st, Inl e)
               | Inr r \<Rightarrow>
                   (st\<lparr>error := (if truthy r then field r ''error''
                                 else JStr ''An unkown error occurred please try again.'')\<rparr>,
                    Inr res)))"

definition makeRequest ::
  "request_callback option \<Rightarrow> wc_state \<Rightarrow> payload \<Rightarrow> wc_state \<times> (js_error + jsval)" where
  "makeRequest held st pl =
     (case accounts st of
        [] \<Rightarrow> (st, Inl TypeError)
      | acc # rest \<Rightarrow>
          (let address = address_of acc;
               chainId = chainId_of acc
           in case held of
                None \<Rightarrow> (st, Inl (Error ''There is no onRequestCallback''))
              | Some cb \<Rightarrow>
                  (let st1 = log_event (RequestCallback address chainId pl) st
                   in case cb address chainId pl of
                        Raised e \<Rightarrow> (st1, Inl e)
                      | Rejected e \<Rightarrow>
                          settle ((log_event (LogError e) st1)
                                    \<lparr>error := JStr ''An unkown error occurred please try again.''\<rparr>)
                                 pl JUndefined
                      | Fulfilled v \<Rightarrow> settle st1 pl v)))"

definition cache_key :: "wc_env \<Rightarrow> jsonrpc_request \<Rightarrow> string" where
  "cache_key E r = ''request-'' @ JSON_stringify E r"

definition approveAndMakeRequest ::
  "wc_env \<Rightarrow> request_callback option \<Rightarrow> wc_state \<Rightarrow> request_event \<Rightarrow>
   wc_state \<times> (js_error + jsval)" where
  "approveAndMakeRequest E held st ev =
     makeRequest held (st\<lparr>storage := (storage st)(cache_key E (request ev) \<mapsto> JBool True)\<rparr>)
                 (OfEvent ev)"

definition checkApprovedRequest :: "wc_env \<Rightarrow> wc_state \<Rightarrow> jsonrpc_request \<Rightarrow> jsval" where
  "checkApprovedRequest E st r =
     (case storage st (cache_key E r) of None \<Rightarrow> JUndefined | Some v \<Rightarrow> v)"

text \<open>\<^verbatim>\<open>wcClient.respond({ topic, response })\<close>.\<close>

definition client_respond ::
  "wc_env \<Rightarrow> wc_state \<Rightarrow> string \<Rightarrow> response \<Rightarrow> wc_state \<times> (js_error + unit)" where
  "client_respond E st t r =
     (case respond E t r of
        None \<Rightarrow> (log_event (Respond t r) st, Inr ())
      | Some e \<Rightarrow> (log_event (RespondFailed t r e) st, Inl e))"

definition respondRequest ::
  "wc_env \<Rightarrow> wc_state \<Rightarrow> string \<Rightarrow> response \<Rightarrow> wc_state \<times> (js_error + unit)" where
  "respondRequest E st t r =
     (if wcClient st = None then (st, Inl (Error ''Client is not initialized''))
      else client_respond E st t r)"

text \<open>
  The handler of \<^verbatim>\<open>session.proposal\<close>. It is registered on the client, so its test that
  the client is defined cannot fail; that test and the list \<^verbatim>\<open>supportedNamespaces\<close>, which
  is built and never read, are left out. The rejection is handed to the client and not
  awaited.
\<close>

definition on_session_proposal :: "options \<Rightarrow> wc_state \<Rightarrow> proposal \<Rightarrow> wc_state" where
  "on_session_proposal opts st p =
     (let unsupportedChains = filter (\<lambda>chainId. chainId \<notin> set (chains st)) (permissions_chains p)
      in if unsupportedChains \<noteq> [] then log_event (RejectProposal p) st
         else (let unsupportedMethods =
                     filter (\<lambda>m. m \<notin> set (methods opts)) (permissions_methods p)
               in if unsupportedMethods \<noteq> [] then log_event (RejectProposal p) st
                  else st\<lparr>sessionProposals := sessionProposals st @ [p]\<rparr>))"

text \<open>The three local functions of the handler of \<^verbatim>\<open>session.request\<close>.\<close>

definition askApproval :: "wc_state \<Rightarrow> request_event \<Rightarrow> wc_state" where
  "askApproval st requestEvent =
     st\<lparr>requests :=
          filter (\<lambda>i. req_id (request i) \<noteq> req_id (request requestEvent)) (requests st)
          @ [requestEvent]\<rparr>"

definition approve ::
  "wc_env \<Rightarrow> request_callback option \<Rightarrow> wc_state \<Rightarrow> request_event \<Rightarrow>
   wc_state \<times> (js_error + unit)" where
  "approve E held st requestEvent =
     (case makeRequest held st (OfRequest (request requestEvent)) of
        (st1, Inl e) \<Rightarrow> (st1, Inl e)
      | (st1, Inr resp) \<Rightarrow> respondRequest E st1 (topic requestEvent) (Result resp))"

definition reject ::
  "wc_env \<Rightarrow> wc_state \<Rightarrow> request_event \<Rightarrow> string \<Rightarrow> wc_state \<times> (js_error + unit)" where
  "reject E st requestEvent message =
     respondRequest E st (topic requestEvent)
       (formatJsonRpcError (req_id (request requestEvent)) message)"

text \<open>The \<^verbatim>\<open>try\<close> block of the handler, then the handler with its \<^verbatim>\<open>catch\<close>.\<close>

definition decide ::
  "wc_env \<Rightarrow> request_callback option \<Rightarrow> wc_state \<Rightarrow> request_event \<Rightarrow>
   wc_state \<times> (js_error + unit)" where
  "decide E held st requestEvent =
     (if truthy (checkApprovedRequest E st (request requestEvent))
      then approve E held st requestEvent
      else (case autoAcceptCallback st of
              Some cb \<Rightarrow>
                (let address = (case accounts st of
                                  [] \<Rightarrow> JUndefined
                                | acc # rest \<Rightarrow> address_of acc);
                     chainId = (case accounts st of
                                  [] \<Rightarrow> JUndefined
                                | acc # rest \<Rightarrow> JStr (chainId_of acc));
                     st1 = log_event (AutoAcceptCallback address chainId (request requestEvent)) st
                 in case cb address chainId (request requestEvent) of
                      Inl e \<Rightarrow> (st1, Inl e)
                    | Inr autoAccepted \<Rightarrow>
                        if truthy autoAccepted then approve E held st1 requestEvent
                        else (askApproval st1 requestEvent, Inr ()))
            | None \<Rightarrow> (askApproval st requestEvent, Inr ())))"

definition on_session_request ::
  "wc_env \<Rightarrow> request_callback option \<Rightarrow> wc_state \<Rightarrow> request_event \<Rightarrow>
   wc_state \<times> (js_error + unit)" where
  "on_session_request E held st requestEvent =
     (case decide E held st requestEvent of
        (st1, Inl e) \<Rightarrow> reject E st1 requestEvent (message_of e)
      | (st1, Inr u) \<Rightarrow> (st1, Inr ()))"

text \<open>
  \<^verbatim>\<open>removeFromPending\<close>: \<^verbatim>\<open>setRequests(requests.filter(...))\<close>, where \<^verbatim>\<open>requests\<close> is the
  array \<open>captured\<close> by the render that created the function.
\<close>

definition removeFromPending :: "request_event list \<Rightarrow> wc_state \<Rightarrow> request_event \<Rightarrow> wc_state" where
  "removeFromPending captured st requestEvent =
     st\<lparr>requests :=
          filter (\<lambda>x. req_id (request x) \<noteq> req_id (request requestEvent)) captured\<rparr>"

text \<open>
  The \<^verbatim>\<open>try\<close> block of \<^verbatim>\<open>approveRequest\<close> with its \<^verbatim>\<open>catch\<close> block, which logs and
  answers with the fixed error.
\<close>

definition approveRequest_respond ::
  "wc_env \<Rightarrow> request_callback option \<Rightarrow> wc_state \<Rightarrow> request_event \<Rightarrow>
   wc_state \<times> (js_error + unit)" where
  "approveRequest_respond E held st requestEvent =
     (case (case approveAndMakeRequest E held st requestEvent of
              (st1, Inl e) \<Rightarrow> (st1, Inl e)
            | (st1, Inr resp) \<Rightarrow> client_respond E st1 (topic requestEvent) (Result resp)) of
        (st2, Inr u) \<Rightarrow> (st2, Inr ())
      | (st2, Inl e) \<Rightarrow>
          client_respond E (log_event (LogError e) st2) (topic requestEvent)
            (formatJsonRpcError (req_id (request requestEvent))
               ''Failed or Rejected Request''))"

text \<open>
  \<^verbatim>\<open>approveRequest\<close>: the test of the client, the \<^verbatim>\<open>try\<close> and \<^verbatim>\<open>catch\<close> blocks, and the
  removal after them.
\<close>

definition approveRequest ::
  "wc_env \<Rightarrow> request_callback option \<Rightarrow> request_event list \<Rightarrow> wc_state \<Rightarrow> request_event \<Rightarrow>
   wc_state \<times> (js_error + unit)" where
  "approveRequest E held captured st requestEvent =
     (if wcClient st = None then (st, Inl (Error ''Client is not initialized''))
      else
        (case approveRequest_respond E held st requestEvent of
           (st3, Inl e') \<Rightarrow> (st3, Inl e')
         | (st3, Inr u) \<Rightarrow> (removeFromPending captured st3 requestEvent, Inr ())))"

definition rejectRequest ::
  "wc_env \<Rightarrow> request_event list \<Rightarrow> wc_state \<Rightarrow> request_event \<Rightarrow>
   wc_state \<times> (js_error + unit)" where
  "rejectRequest E captured st requestEvent =
     (if wcClient st = None then (st, Inl (Error ''Client is not initialized''))
      else
        (case client_respond E st (topic requestEvent)
                (formatJsonRpcError (req_id (request requestEvent))
                   ''Failed or Rejected Request'') of
           (st1, Inl e) \<Rightarrow> (st1, Inl e)
         | (st1, Inr u) \<Rightarrow> (removeFromPending captured st1 requestEvent, Inr ())))"


section \<open>Notions used in the statements\<close>

text \<open>The five local collections that a reset is to empty.\<close>

definition local_collections ::
  "wc_state \<Rightarrow> session list \<times> proposal list \<times> request_event list \<times> jsval list \<times> string list" where
  "local_collections st =
     (sessions st, sessionProposals st, requests st, results st, accounts st)"

definition cleared :: "wc_state \<Rightarrow> bool" where
  "cleared st \<longleftrightarrow>
     sessions st = [] \<and> sessionProposals st = [] \<and> requests st = [] \<and>
     results st = [] \<and> accounts st = []"

text \<open>No session exists, neither in the local list nor in the client's store.\<close>

definition quiet :: "wc_state \<Rightarrow> bool" where
  "quiet st \<longleftrightarrow>
     sessions st = [] \<and> (case wcClient st of None \<Rightarrow> True | Some c \<Rightarrow> session_values c = [])"

text \<open>The state variables that fulfilling and answering a request leave alone.\<close>

definition same_session_data :: "wc_state \<Rightarrow> wc_state \<Rightarrow> bool" where
  "same_session_data st st' \<longleftrightarrow>
     requests st' = requests st \<and> wcClient st' = wcClient st \<and> storage st' = storage st \<and>
     accounts st' = accounts st \<and> sessions st' = sessions st \<and>
     sessionProposals st' = sessionProposals st \<and> results st' = results st \<and>
     onRequestCallback st' = onRequestCallback st \<and>
     autoAcceptCallback st' = autoAcceptCallback st"


section \<open>A sample library, node and request\<close>

text \<open>
  Every theorem below holds for any library and any node. To evaluate the functions on
  concrete inputs a library and a node have to be chosen; these are small stand-ins with
  the interface of the record types above. The stand-in for the transaction constructor
  builds its own signers from the ones it is given and puts the scope None where it is
  given \<^verbatim>\<open>undefined\<close>.
\<close>

definition sample_neon :: neon where
  "sample_neon =
     \<lparr> hash160 = (\<lambda>v. case v of
                      JStr s \<Rightarrow> if length s = 40
                                then Inr (JObj [(''type'', JStr ''Hash160''), (''value'', v)])
                                else Inl (Error ''hash160 expected a 40 character string'')
                    | _ \<Rightarrow> Inl TypeError),
       array = (\<lambda>vs. Inr (JObj [(''type'', JStr ''Array''), (''value'', JArr vs)])),
       fromHex = (\<lambda>v. case v of
                      JStr s \<Rightarrow> if list_all is_hex_char s then Inr v
                                else Inl (Error ''not a hex string'')
                    | _ \<Rightarrow> Inl TypeError),
       new_Signer = (\<lambda>h. \<lparr> signer_account = h, scopes = None_scope,
                            allowedContracts = [], allowedGroups = [] \<rparr>),
       new_Transaction = (\<lambda>ops v sgs.
          \<lparr> script = ops, validUntilBlock = v,
            tx_signers = map (\<lambda>sg. sg\<lparr>scopes := (if scopes sg = JUndefined then None_scope
                                                   else scopes sg)\<rparr>) sgs,
            witnesses = [] \<rparr>),
       str2hexstring = (\<lambda>s. concat (map (\<lambda>c. [hex_digit (of_char c div 16),
                                                 hex_digit (of_char c mod 16)]) s)),
       num2VarInt = (\<lambda>n. [hex_digit (nat \<lfloor>n\<rfloor> div 16), hex_digit (nat \<lfloor>n\<rfloor> mod 16)]),
       sign = (\<lambda>m k. k @ m),
       verify = (\<lambda>m d k. d = k @ m),
       getVerificationScriptFromPublicKey = (\<lambda>k. ''0c21'' @ k @ ''4156e7b327''),
       addFees = (\<lambda>t m a. Inr t),
       fromConfig = Inr (),
       facade_sign = (\<lambda>t cb. case cb of
                       None \<Rightarrow> Inl (Error ''no signing callback'')
                     | Some f \<Rightarrow> (case f t of
                                    Inl e \<Rightarrow> Inl e
                                  | Inr sg \<Rightarrow> Inr (t\<lparr>witnesses :=
                                      map (\<lambda>w. w\<lparr>invocationScript := sg\<rparr>) (witnesses t)\<rparr>))),
       tx_sign = (\<lambda>t a m. Inr (t\<lparr>witnesses :=
                      map (\<lambda>w. w\<lparr>invocationScript := privateKey a\<rparr>) (witnesses t)\<rparr>)) \<rparr>"

definition sample_node :: rpc_node where
  "sample_node =
     \<lparr> getMagicOfRpcAddress = Inr 860833102,
       getBlockCount = Inr 1000,
       invokeScript = (\<lambda>ops sgs. Inr (JObj [(''state'', JStr ''HALT'')])),
       sendRawTransaction = (\<lambda>t. case t of
                                None \<Rightarrow> Inl TypeError
                              | Some trx \<Rightarrow> Inr (JStr ''0xabc'')) \<rparr>"

definition sample_account :: account where
  "sample_account = \<lparr> scriptHash = ''d2a4cff31913016155e38e474a2c06d08be276cf'',
                      publicKey = ''02aa'', privateKey = ''11bb'' \<rparr>"

definition sample_args :: "jsval list" where
  "sample_args =
     [JNum 5,
      JObj [(''type'', JStr ''Address''),
            (''value'', JStr ''d2a4cff31913016155e38e474a2c06d08be276cf'')],
      JObj [(''type'', JStr ''Array''),
            (''value'', JArr [JObj [(''type'', JStr ''Integer''), (''value'', JNum 1)],
                              JStr ''x''])]]"

definition sample_cim :: contract_invocation_multi where
  "sample_cim =
     \<lparr> signers = JUndefined,
       invocations =
         [\<lparr> ci_scriptHash = ''ef4073a0f2b305a38ec4050e4d3d28bc40ea63f5'',
            operation = ''transfer'',
            args = JArr sample_args,
            abortOnFail = True \<rparr>] \<rparr>"

text \<open>A signing callback that fails, as a hardware device that declines does.\<close>

definition sample_callback :: signing_callback where
  "sample_callback t = Inl (Error ''denied on device'')"

text \<open>The transaction that \<open>buildTransaction\<close> makes of the sample request.\<close>

definition sample_trx :: transaction where
  "sample_trx =
     \<lparr> script =
         [ContractCall ''ef4073a0f2b305a38ec4050e4d3d28bc40ea63f5'' ''transfer''
            [JNum 5,
             JObj [(''type'', JStr ''Hash160''),
                   (''value'', JStr ''d2a4cff31913016155e38e474a2c06d08be276cf'')],
             JObj [(''type'', JStr ''Array''),
                   (''value'', JArr [JObj [(''type'', JStr ''Integer''), (''value'', JNum 1)],
                                     JStr ''x''])]],
          Emit 0x39],
       validUntilBlock = 1100,
       tx_signers = [\<lparr> signer_account = ''d2a4cff31913016155e38e474a2c06d08be276cf'',
                       scopes = JNum 0, allowedContracts = [], allowedGroups = [] \<rparr>],
       witnesses = [\<lparr> verificationScript = ''0c2102aa4156e7b327'', invocationScript = [] \<rparr>] \<rparr>"


text \<open>
  A controller with one account and one pending request, a client that holds one session,
  and two transports: one that delivers and disconnects, one on which every call fails.
  The stand-in for \<^verbatim>\<open>JSON.stringify\<close> writes the method and the version tag.
\<close>

definition sample_request :: jsonrpc_request where
  "sample_request = \<lparr> req_id = 1, jsonrpc = ''2.0'', req_method = ''testInvoke'',
                      params = JObj [(''invocations'', JArr [])] \<rparr>"

definition sample_event :: request_event where
  "sample_event = \<lparr> topic = ''6f2a'', request = sample_request \<rparr>"

definition sample_options :: options where
  "sample_options = \<lparr> chainIds = [''neo3:N3''], methods = [''invokeFunction'', ''testInvoke''] \<rparr>"

definition sample_proposal :: proposal where
  "sample_proposal = \<lparr> proposal_topic = ''91c0'', permissions_chains = [''neo3:N3''],
                       permissions_methods = [''invokeFunction''] \<rparr>"

definition sample_env :: wc_env where
  "sample_env =
     \<lparr> JSON_stringify = (\<lambda>r. req_method r @ '':'' @ jsonrpc r),
       respond = (\<lambda>t r. None),
       disconnect = (\<lambda>c t. (None,
          c\<lparr>session_values := filter (\<lambda>s. session_topic s \<noteq> t) (session_values c)\<rparr>)) \<rparr>"

definition sample_env_down :: wc_env where
  "sample_env_down =
     \<lparr> JSON_stringify = (\<lambda>r. req_method r @ '':'' @ jsonrpc r),
       respond = (\<lambda>t r. Some (Error ''No matching session'')),
       disconnect = (\<lambda>c t. (Some (Error ''No matching session''), c)) \<rparr>"

definition sample_result :: jsval where
  "sample_result =
     JObj [(''id'', JNum 1), (''jsonrpc'', JStr ''2.0''),
           (''result'', JObj [(''state'', JStr ''HALT''), (''isTest'', JBool True)]),
           (''isMessage'', JBool False)]"

definition sample_facade :: request_callback where
  "sample_facade address chainId pl = Fulfilled sample_result"

definition failing_facade :: request_callback where
  "failing_facade address chainId pl = Raised (Error ''signing failed'')"

definition auto_decline :: "jsval \<Rightarrow> jsval \<Rightarrow> jsonrpc_request \<Rightarrow> js_error + jsval" where
  "auto_decline address chainId r = Inr (JBool False)"

definition sample_state :: wc_state where
  "sample_state =
     \<lparr> wcClient = Some \<lparr> session_values = [\<lparr> session_topic = ''6f2a'' \<rparr>],
                         history_pending = [] \<rparr>,
       storage = Map.empty,
       localStorage = [(''wc@2:client:session'', ''x''), (''theme'', ''dark'')],
       sessionProposals = [],
       initialized = True,
       chains = [''neo3:N3''],
       accounts = [''neo3:N3:NTrezR3C4X8aMLVg7vozt5wguyNfFhwuFx''],
       sessions = [],
       requests = [sample_event],
       results = [],
       onRequestCallback = Some sample_facade,
       autoAcceptCallback = None,
       txHash = JStr [],
       messageVerification = JObj [],
       error = JBool False,
       trace = [] \<rparr>"

text \<open>The same controller with a second request pending beside the first.\<close>

definition sample_event2 :: request_event where
  "sample_event2 = \<lparr> topic = ''8c1d'', request = sample_request\<lparr>req_id := 2\<rparr> \<rparr>"

definition sample_two_pending :: wc_state where
  "sample_two_pending = sample_state\<lparr>requests := [sample_event, sample_event2]\<rparr>"

text \<open>
  The same controller with the sample request in the approval cache and an auto-accept
  callback that declines everything.
\<close>

definition sample_cached_state :: wc_state where
  "sample_cached_state =
     sample_state\<lparr>storage := [''request-testInvoke:2.0'' \<mapsto> JBool True],
                  autoAcceptCallback := Some auto_decline\<rparr>"


section \<open>Properties of parameter conversion\<close>

lemma returns_iff: "returns r \<longleftrightarrow> (\<exists>y. r = Inr y)"
  by (cases r) auto

text \<open>The arrow function returns exactly on the convertible elements.\<close>

lemma convert_convertible:
  "returns (convertParams L arglist) =
     (case arglist of JArr xs \<Rightarrow> list_all (convertible L) xs | _ \<Rightarrow> False)"
  "returns (convertEach L xs) = list_all (convertible L) xs"
  "returns (convertArg L a) = convertible L a"
proof (induction L arglist and L xs and L a rule: convertParams_convertEach_convertArg.induct)
  case (1 L arglist)
  then show ?case by (cases arglist) (auto simp: convertParams.simps)
next
  case (2 L)
  then show ?case by simp
next
  case (3 L a as)
  then show ?case by (auto split: sum.splits)
next
  case (4 L a)
  show ?case
  proof (cases "get_prop a ''value''")
    case (Inl e)
    then show ?thesis by (simp add: convertArg.simps convertible.simps)
  next
    case (Inr v)
    note v = this
    show ?thesis
    proof (cases "get_prop a ''type''")
      case (Inl e)
      with v show ?thesis by (simp add: convertArg.simps convertible.simps)
    next
      case (Inr t)
      show ?thesis
      proof (cases "v \<noteq> JUndefined \<and> t \<noteq> JStr ''Address'' \<and> t \<noteq> JStr ''ScriptHash''
                    \<and> t = JStr ''Array''")
        case False
        with v Inr show ?thesis by (auto simp: convertArg.simps convertible.simps)
      next
        case True
        with 4 v Inr have IH: "returns (convertParams L v) =
            (case v of JArr xs \<Rightarrow> list_all (convertible L) xs | _ \<Rightarrow> False)"
          by blast
        show ?thesis
        proof (cases v)
          case (JArr xs)
          with True v Inr IH show ?thesis
            by (cases "convertEach L xs")
               (auto simp: convertArg.simps convertible.simps convertParams.simps)
        qed (use True v Inr in
              \<open>auto simp: convertArg.simps convertible.simps convertParams.simps\<close>)
      qed
    qed
  qed
qed

lemma convertEach_length:
  "convertEach L xs = Inr ys \<Longrightarrow> length ys = length xs"
  by (induction xs arbitrary: ys) (auto split: sum.splits)

lemma convertEach_nth:
  "convertEach L xs = Inr ys \<Longrightarrow> i < length xs \<Longrightarrow> convertArg L (xs ! i) = Inr (ys ! i)"
  by (induction xs arbitrary: ys i) (auto split: sum.splits simp: nth_Cons split: nat.splits)

text \<open>
  C3, as stated, fails: \<^verbatim>\<open>convertParams([null])\<close> throws, because the arrow function reads
  \<^verbatim>\<open>a.value\<close> of \<^verbatim>\<open>null\<close>.
\<close>

theorem convertParams_throws_on_null:
  "convertParams sample_neon (JArr [JNull]) = Inl TypeError"
  by (simp add: convertParams.simps convertArg.simps)

text \<open>
  C3, amended. On an argument list \<open>xs\<close>, \<open>convertParams\<close> returns exactly when every element
  is convertible: none is \<^verbatim>\<open>undefined\<close> or \<^verbatim>\<open>null\<close>, the library accepts the value of each
  Address or ScriptHash element, and each Array element carries an array that is
  convertible in turn. When it returns, the result has the length of \<open>xs\<close> and its element
  \<open>i\<close> is the conversion of element \<open>i\<close> of \<open>xs\<close>. An element without a value marker is
  returned unchanged; an Address or ScriptHash element becomes the library's hash160
  parameter of its value; an Array element becomes the library's array parameter of the
  recursively converted list, one parameter for the whole nested list.
\<close>

theorem convertParams_on_convertible:
  "((\<exists>ys. convertParams L (JArr xs) = Inr ys) \<longleftrightarrow> list_all (convertible L) xs) \<and>
   (\<forall>ys. convertParams L (JArr xs) = Inr ys \<longrightarrow>
      length ys = length xs \<and>
      (\<forall>i < length xs. convertArg L (xs ! i) = Inr (ys ! i))) \<and>
   (\<forall>a. get_prop a ''value'' = Inr JUndefined \<longrightarrow> convertArg L a = Inr a) \<and>
   (\<forall>a v. get_prop a ''value'' = Inr v \<and> v \<noteq> JUndefined \<and>
      (get_prop a ''type'' = Inr (JStr ''Address'') \<or>
       get_prop a ''type'' = Inr (JStr ''ScriptHash'')) \<longrightarrow>
      convertArg L a = hash160 L v) \<and>
   (\<forall>a v. get_prop a ''value'' = Inr v \<and> v \<noteq> JUndefined \<and>
      get_prop a ''type'' = Inr (JStr ''Array'') \<longrightarrow>
      convertArg L a =
        (case convertParams L v of Inl e \<Rightarrow> Inl e | Inr zs \<Rightarrow> array L zs))"
proof (intro conjI allI impI)
  show "(\<exists>ys. convertParams L (JArr xs) = Inr ys) \<longleftrightarrow> list_all (convertible L) xs"
    using convert_convertible(1)[of L "JArr xs"] by (simp add: returns_iff)
next
  fix ys assume "convertParams L (JArr xs) = Inr ys"
  then show "length ys = length xs"
    by (simp add: convertParams.simps convertEach_length)
next
  fix ys i assume "convertParams L (JArr xs) = Inr ys" "i < length xs"
  then show "convertArg L (xs ! i) = Inr (ys ! i)"
    by (simp add: convertParams.simps convertEach_nth)
next
  fix a assume "get_prop a ''value'' = Inr JUndefined"
  then show "convertArg L a = Inr a" by (simp add: convertArg.simps)
next
  fix a v
  assume "get_prop a ''value'' = Inr v \<and> v \<noteq> JUndefined \<and>
      (get_prop a ''type'' = Inr (JStr ''Address'') \<or>
       get_prop a ''type'' = Inr (JStr ''ScriptHash''))"
  then show "convertArg L a = hash160 L v" by (auto simp: convertArg.simps)
next
  fix a v
  assume "get_prop a ''value'' = Inr v \<and> v \<noteq> JUndefined \<and>
      get_prop a ''type'' = Inr (JStr ''Array'')"
  then show "convertArg L a =
        (case convertParams L v of Inl e \<Rightarrow> Inl e | Inr zs \<Rightarrow> array L zs)"
    by (auto simp: convertArg.simps)
qed

text \<open>
  C3, amended, on the sample arguments: a number, an Address and an Array that holds a typed
  integer and a bare string. All three are convertible and three results come back.
\<close>

theorem convertParams_on_convertible_witness:
  "list_all (convertible sample_neon) sample_args \<and>
   (\<exists>ys. convertParams sample_neon (JArr sample_args) = Inr ys \<and> length ys = 3 \<and>
      convertArg sample_neon (sample_args ! 2) = Inr (ys ! 2))"
proof -
  have c: "list_all (convertible sample_neon) sample_args"
    by (simp add: sample_args_def convertible.simps sample_neon_def convertArg.simps)
  have l: "length sample_args = 3"
    by (simp add: sample_args_def)
  from c convertParams_on_convertible [of sample_neon sample_args] l
  show ?thesis by auto
qed


section \<open>Properties of the signer set\<close>

lemma buildSigner_no_entry:
  "buildSigner L acct JUndefined = Inr ((new_Signer L (scriptHash acct))\<lparr>scopes := JUndefined\<rparr>)"
  by (simp add: buildSigner_def)

lemma buildMultipleSigner_default:
  "sg = JUndefined \<or> sg = JArr [] \<Longrightarrow>
   buildMultipleSigner L acct sg =
     Inr [(new_Signer L (scriptHash acct))\<lparr>scopes := JUndefined\<rparr>]"
  by (auto simp: buildMultipleSigner_def buildSigner_no_entry)

text \<open>
  C2, as stated, fails: for an empty signer list the one signer that is built has
  \<^verbatim>\<open>undefined\<close> as its scopes, not \<^verbatim>\<open>CalledByEntry\<close>. \<^verbatim>\<open>buildSigner\<close> assigns
  \<^verbatim>\<open>signerEntry && signerEntry.scopes\<close>, and there is no signer entry.
\<close>

theorem default_signer_scope_undefined:
  "buildMultipleSigner sample_neon sample_account (JArr []) =
     Inr [\<lparr> signer_account = ''d2a4cff31913016155e38e474a2c06d08be276cf'',
            scopes = JUndefined, allowedContracts = [], allowedGroups = [] \<rparr>] \<and>
   JUndefined \<noteq> CalledByEntry"
  by (simp add: buildMultipleSigner_def buildSigner_def sample_neon_def sample_account_def
      CalledByEntry_def)

text \<open>
  C2, amended. For an invoke or test-invoke batch whose signer list is empty or absent, the
  signer list that \<^verbatim>\<open>buildMultipleSigner\<close> returns is exactly one signer: the library's
  signer for the invoking account's script hash, with \<^verbatim>\<open>undefined\<close> assigned to its scopes.
  Test-invoke hands this list to the simulation call; invoke hands it to the library's
  transaction constructor. What the library makes of the \<^verbatim>\<open>undefined\<close> scopes is not part
  of the statement.
\<close>

theorem default_signer:
  assumes "signers cim = JUndefined \<or> signers cim = JArr []"
  shows "buildMultipleSigner L acct (signers cim) =
           Inr [(new_Signer L (scriptHash acct))\<lparr>scopes := JUndefined\<rparr>] \<and>
         (\<forall>ops. emitInvocations L (invocations cim) = Inr ops \<longrightarrow>
            multiTestInvoke L N acct cim =
              invokeScript N ops [(new_Signer L (scriptHash acct))\<lparr>scopes := JUndefined\<rparr>]) \<and>
         (\<forall>trx magic. buildTransaction L N acct cim = Inr (trx, magic) \<longrightarrow>
            (\<exists>ops h.
               addFees L
                 ((new_Transaction L ops (h + 100)
                     [(new_Signer L (scriptHash acct))\<lparr>scopes := JUndefined\<rparr>])
                  \<lparr>witnesses :=
                     [\<lparr>verificationScript =
                         getVerificationScriptFromPublicKey L (publicKey acct),
                       invocationScript = []\<rparr>]\<rparr>)
                 magic acct = Inr trx))"
proof (intro conjI allI impI)
  show b: "buildMultipleSigner L acct (signers cim) =
           Inr [(new_Signer L (scriptHash acct))\<lparr>scopes := JUndefined\<rparr>]"
    using assms by (rule buildMultipleSigner_default)
  fix ops assume "emitInvocations L (invocations cim) = Inr ops"
  then show "multiTestInvoke L N acct cim =
              invokeScript N ops [(new_Signer L (scriptHash acct))\<lparr>scopes := JUndefined\<rparr>]"
    by (simp add: multiTestInvoke_def b)
next
  have b: "buildMultipleSigner L acct (signers cim) =
           Inr [(new_Signer L (scriptHash acct))\<lparr>scopes := JUndefined\<rparr>]"
    using assms by (rule buildMultipleSigner_default)
  fix trx magic assume "buildTransaction L N acct cim = Inr (trx, magic)"
  then show "\<exists>ops h.
               addFees L
                 ((new_Transaction L ops (h + 100)
                     [(new_Signer L (scriptHash acct))\<lparr>scopes := JUndefined\<rparr>])
                  \<lparr>witnesses :=
                     [\<lparr>verificationScript =
                         getVerificationScriptFromPublicKey L (publicKey acct),
                       invocationScript = []\<rparr>]\<rparr>)
                 magic acct = Inr trx"
    unfolding buildTransaction_def b
    by (auto split: sum.splits simp: Let_def)
qed

text \<open>C2, amended, on the sample batch, which carries no signer list.\<close>

theorem default_signer_witness:
  "(signers sample_cim = JUndefined \<or> signers sample_cim = JArr []) \<and>
   buildMultipleSigner sample_neon sample_account (signers sample_cim) =
     Inr [\<lparr> signer_account = ''d2a4cff31913016155e38e474a2c06d08be276cf'',
            scopes = JUndefined, allowedContracts = [], allowedGroups = [] \<rparr>]"
proof -
  have h: "signers sample_cim = JUndefined \<or> signers sample_cim = JArr []"
    by (simp add: sample_cim_def)
  from default_signer [OF h, of sample_neon sample_account sample_node]
  show ?thesis using h
    by (simp add: sample_neon_def sample_account_def None_scope_def)
qed


section \<open>Properties of message signing\<close>

lemma hex_digit_is_hex: "is_hex_char (hex_digit d)"
proof -
  have "d mod 16 < length ''0123456789abcdef''" by simp
  then show ?thesis
    unfolding is_hex_char_def hex_digit_def by (rule nth_mem)
qed

lemma toString_hex_length: "length (toString_hex bs) = 2 * length bs"
  by (induction bs) (simp_all add: toString_hex_def)

lemma toString_hex_chars: "list_all is_hex_char (toString_hex bs)"
  by (induction bs) (simp_all add: toString_hex_def hex_digit_is_hex)

text \<open>
  C6. For every account and message, the salt of the signed message is the hexadecimal form
  of 16 random bytes, 32 hexadecimal characters; its public key is the account's; and its
  message envelope is \<^verbatim>\<open>010001f0\<close>, then the library's variable-length integer of the
  number of bytes of the hex-encoded salt and message (half the length of the hex string),
  then that hex string, then \<^verbatim>\<open>0000\<close>.
\<close>

theorem signMessage_envelope:
  "salt (signMessage L rng acct message) = toString_hex (randomBytes rng 16) \<and>
   length (salt (signMessage L rng acct message)) = 32 \<and>
   list_all is_hex_char (salt (signMessage L rng acct message)) \<and>
   sm_publicKey (signMessage L rng acct message) = publicKey acct \<and>
   messageHex (signMessage L rng acct message) =
     ''010001f0'' @
     num2VarInt L (of_nat (length (str2hexstring L
        (salt (signMessage L rng acct message) @ message))) / 2) @
     str2hexstring L (salt (signMessage L rng acct message) @ message) @
     ''0000''"
  by (simp add: signMessage_def Let_def toString_hex_length toString_hex_chars randomBytes_def)

text \<open>
  Verifying a freshly signed message is one call of the library's \<^verbatim>\<open>verify\<close> on the
  envelope, the library's signature of that envelope and the account's public key; whether
  it succeeds is the library's matter.
\<close>

lemma verifyMessage_signMessage:
  "verifyMessage L (signMessage L rng acct message) =
     verify L (messageHex (signMessage L rng acct message))
       (sign L (messageHex (signMessage L rng acct message)) (privateKey acct))
       (publicKey acct)"
  by (simp add: verifyMessage_def signMessage_def Let_def)


section \<open>Properties of hardware signing\<close>

lemma sample_emit:
  "emitInvocations sample_neon (invocations sample_cim) = Inr (script sample_trx)"
  by (simp add: sample_cim_def sample_args_def convertParams.simps convertArg.simps
      sample_neon_def sample_trx_def)

lemma sample_buildTransaction:
  "buildTransaction sample_neon sample_node sample_account sample_cim =
     Inr (sample_trx, 860833102)"
proof -
  have s: "buildMultipleSigner sample_neon sample_account (signers sample_cim) =
     Inr [\<lparr> signer_account = ''d2a4cff31913016155e38e474a2c06d08be276cf'',
            scopes = JUndefined, allowedContracts = [], allowedGroups = [] \<rparr>]"
    by (simp add: buildMultipleSigner_def buildSigner_def sample_cim_def sample_neon_def
        sample_account_def)
  show ?thesis
    unfolding buildTransaction_def sample_emit s
    by (simp add: sample_node_def sample_neon_def sample_account_def sample_trx_def
        None_scope_def)
qed

text \<open>
  C9. In a hardware-backed invoke call that has reached the signing step (the transaction
  is built and the network facade is there), a signing that fails does not end the call:
  the error is logged, the notification is hidden as usual, and the transaction is handed
  to the broadcast call in the state the failed signing left it in, which is \<^verbatim>\<open>undefined\<close>.
  The result of the call is the result of that broadcast.
\<close>

theorem hardware_signing_failure_continues:
  assumes "buildTransaction L N acct cim = Inr (trx, magic)"
    and "fromConfig L = Inr ()"
    and "facade_sign L trx cb = Inl e"
  shows "multiInvoke L N acct cim True cb shown hide =
           ((case shown of None \<Rightarrow> [] | Some i \<Rightarrow> [ShowInfoNotification]) @
            [ConsoleError e] @
            (if hide \<and> truthy (case shown of None \<Rightarrow> JUndefined | Some i \<Rightarrow> i)
             then [HideNotification (case shown of None \<Rightarrow> JUndefined | Some i \<Rightarrow> i)]
             else []) @
            [SendRawTransaction None],
            sendRawTransaction N None)"
  unfolding multiInvoke_def using assms by (simp add: Let_def)

text \<open>
  C9 on the sample request, with a signing callback that fails: the error is logged and the
  broadcast is attempted with \<^verbatim>\<open>undefined\<close>.
\<close>

theorem hardware_signing_failure_continues_witness:
  "buildTransaction sample_neon sample_node sample_account sample_cim =
     Inr (sample_trx, 860833102) \<and>
   fromConfig sample_neon = Inr () \<and>
   facade_sign sample_neon sample_trx (Some sample_callback) = Inl (Error ''denied on device'') \<and>
   multiInvoke sample_neon sample_node sample_account sample_cim True (Some sample_callback)
       (Some (JNum 7)) True =
     ([ShowInfoNotification, ConsoleError (Error ''denied on device''),
       HideNotification (JNum 7), SendRawTransaction None],
      Inl TypeError)"
proof -
  have a: "fromConfig sample_neon = Inr ()"
    by (simp add: sample_neon_def)
  have b: "facade_sign sample_neon sample_trx (Some sample_callback) =
             Inl (Error ''denied on device'')"
    by (simp add: sample_neon_def sample_callback_def)
  from hardware_signing_failure_continues [OF sample_buildTransaction a b,
      of "Some (JNum 7)" True]
  show ?thesis using sample_buildTransaction a b
    by (simp add: sample_node_def)
qed


section \<open>Properties of the proposal handler\<close>

text \<open>
  C4. A received proposal is either declined or tracked, never both: when one of its chains
  is not in the configured chain list, or one of its methods is not in the configured
  method list, the handler asks the client to reject it and leaves the pending proposals
  as they are; otherwise it appends the proposal to the pending proposals and rejects
  nothing.
\<close>

theorem proposal_accept_or_decline:
  "on_session_proposal opts st p =
     (if (\<exists>c \<in> set (permissions_chains p). c \<notin> set (chains st)) \<or>
         (\<exists>m \<in> set (permissions_methods p). m \<notin> set (methods opts))
      then st\<lparr>trace := trace st @ [RejectProposal p]\<rparr>
      else st\<lparr>sessionProposals := sessionProposals st @ [p]\<rparr>)"
  by (auto simp: on_session_proposal_def log_event_def Let_def filter_empty_conv)

text \<open>
  C4 on the sample configuration: the proposal for chain \<^verbatim>\<open>neo3:N3\<close> and method
  \<^verbatim>\<open>invokeFunction\<close> is tracked; the same proposal asking for \<^verbatim>\<open>signMessage\<close> too is
  declined.
\<close>

theorem proposal_accept_or_decline_witness:
  "on_session_proposal sample_options sample_state sample_proposal =
     sample_state\<lparr>sessionProposals := [sample_proposal]\<rparr> \<and>
   on_session_proposal sample_options sample_state
       (sample_proposal\<lparr>permissions_methods := [''invokeFunction'', ''signMessage'']\<rparr>) =
     sample_state\<lparr>trace :=
       [RejectProposal (sample_proposal\<lparr>permissions_methods := [''invokeFunction'', ''signMessage'']\<rparr>)]\<rparr>"
  using proposal_accept_or_decline [of sample_options sample_state sample_proposal]
    proposal_accept_or_decline [of sample_options sample_state
      "sample_proposal\<lparr>permissions_methods := [''invokeFunction'', ''signMessage'']\<rparr>"]
  by (simp add: sample_options_def sample_state_def sample_proposal_def)


section \<open>Properties of the approval queue\<close>

text \<open>
  C10. Enqueuing a request event removes the queued entries that have its request id and
  appends the event, so the queue then holds exactly one entry with that id, the new one;
  and a queue with at most one entry per request id stays so.
\<close>

theorem askApproval_one_entry_per_id:
  "requests (askApproval st ev) =
     filter (\<lambda>i. req_id (request i) \<noteq> req_id (request ev)) (requests st) @ [ev] \<and>
   filter (\<lambda>i. req_id (request i) = req_id (request ev)) (requests (askApproval st ev)) = [ev] \<and>
   (distinct (map (\<lambda>i. req_id (request i)) (requests st)) \<longrightarrow>
    distinct (map (\<lambda>i. req_id (request i)) (requests (askApproval st ev))))"
  by (auto simp: askApproval_def distinct_map_filter filter_empty_conv)

text \<open>
  C10 on the sample queue: a second event with the id of the queued one replaces it.
\<close>

theorem askApproval_one_entry_per_id_witness:
  "distinct (map (\<lambda>i. req_id (request i)) (requests sample_state)) \<and>
   requests (askApproval sample_state (sample_event\<lparr>topic := ''77aa''\<rparr>)) =
     [sample_event\<lparr>topic := ''77aa''\<rparr>] \<and>
   distinct (map (\<lambda>i. req_id (request i))
     (requests (askApproval sample_state (sample_event\<lparr>topic := ''77aa''\<rparr>))))"
  using askApproval_one_entry_per_id [of sample_state "sample_event\<lparr>topic := ''77aa''\<rparr>"]
  by (simp add: sample_state_def sample_event_def)


section \<open>What fulfilling and answering a request changes\<close>

lemma delivered_append: "delivered (xs @ ys) = delivered xs @ delivered ys"
  by (induction xs rule: delivered.induct) simp_all

lemma request_calls_append: "request_calls (xs @ ys) = request_calls xs @ request_calls ys"
  by (induction xs rule: request_calls.induct) simp_all

lemma auto_accept_calls_append:
  "auto_accept_calls (xs @ ys) = auto_accept_calls xs @ auto_accept_calls ys"
  by (induction xs rule: auto_accept_calls.induct) simp_all

lemma settle_fst:
  "same_session_data st (fst (settle st pl res)) \<and> trace (fst (settle st pl res)) = trace st"
proof (cases "get_prop res ''result''")
  case (Inl e)
  then show ?thesis by (simp add: settle_def Let_def same_session_data_def)
next
  case (Inr v)
  then show ?thesis by (simp add: settle_def Let_def same_session_data_def)
qed

lemma settle_frame:
  "settle st pl res = (st', r) \<Longrightarrow> same_session_data st st' \<and> trace st' = trace st"
  using settle_fst[of st pl res] by simp

lemma makeRequest_frame:
  assumes "makeRequest held st pl = (st', r)"
  shows "same_session_data st st' \<and>
         delivered (trace st') = delivered (trace st) \<and>
         auto_accept_calls (trace st') = auto_accept_calls (trace st)"
proof (cases "accounts st")
  case Nil
  with assms show ?thesis by (simp add: makeRequest_def same_session_data_def)
next
  case (Cons acc rest)
  show ?thesis
  proof (cases held)
    case None
    with Cons assms show ?thesis by (simp add: makeRequest_def same_session_data_def Let_def)
  next
    case (Some cb)
    let ?a = "address_of acc"
    let ?c = "chainId_of acc"
    let ?st1 = "log_event (RequestCallback ?a ?c pl) st"
    show ?thesis
    proof (cases "cb ?a ?c pl")
      case (Fulfilled v)
      with Cons Some assms have "settle ?st1 pl v = (st', r)"
        by (simp add: makeRequest_def Let_def)
      from settle_frame[OF this] show ?thesis
        by (simp add: same_session_data_def log_event_def delivered_append
            auto_accept_calls_append)
    next
      case (Rejected e)
      with Cons Some assms have "settle ((log_event (LogError e) ?st1)
              \<lparr>error := JStr ''An unkown error occurred please try again.''\<rparr>) pl JUndefined
            = (st', r)"
        by (simp add: makeRequest_def Let_def)
      from settle_frame[OF this] show ?thesis
        by (simp add: same_session_data_def log_event_def delivered_append
            auto_accept_calls_append)
    next
      case (Raised e)
      with Cons Some assms show ?thesis
        by (auto simp: makeRequest_def Let_def same_session_data_def log_event_def
            delivered_append auto_accept_calls_append)
    qed
  qed
qed

lemma approveAndMakeRequest_frame:
  assumes "approveAndMakeRequest E held st ev = (st', r)"
  shows "requests st' = requests st \<and> wcClient st' = wcClient st \<and>
         delivered (trace st') = delivered (trace st) \<and>
         storage st' = (storage st)(cache_key E (request ev) \<mapsto> JBool True)"
  using makeRequest_frame[OF assms[unfolded approveAndMakeRequest_def]]
  by (simp add: same_session_data_def)

lemma client_respond_cases:
  "client_respond E st t r = (st', Inr u) \<Longrightarrow>
     respond E t r = None \<and> st' = log_event (Respond t r) st"
  "client_respond E st t r = (st', Inl e) \<Longrightarrow>
     respond E t r = Some e \<and> st' = log_event (RespondFailed t r e) st"
  by (auto simp: client_respond_def split: option.splits)

text \<open>
  What a manual approval or rejection that returns has done: one response was delivered, on
  the topic of the event, and the pending collection was set to the captured array without
  the entries of the request's id.
\<close>

lemma approveRequest_returns:
  assumes "approveRequest E held captured st ev = (st', Inr ())"
  shows "\<exists>r. delivered (trace st') = delivered (trace st) @ [(topic ev, r)] \<and>
           requests st' =
             filter (\<lambda>x. req_id (request x) \<noteq> req_id (request ev)) captured \<and>
           (r = formatJsonRpcError (req_id (request ev)) ''Failed or Rejected Request'' \<or>
            (\<exists>st1 v. approveAndMakeRequest E held st ev = (st1, Inr v) \<and> r = Result v))"
proof -
  note approveRequest_def [simp] approveRequest_respond_def [simp]
  from assms have c: "wcClient st \<noteq> None"
    by (auto split: if_splits)
  obtain st1 r1 where m: "approveAndMakeRequest E held st ev = (st1, r1)"
    by (cases "approveAndMakeRequest E held st ev")
  note f1 = approveAndMakeRequest_frame[OF m]
  let ?err = "formatJsonRpcError (req_id (request ev)) ''Failed or Rejected Request''"
  have catch: "delivered (trace st') = delivered (trace st) @ [(topic ev, ?err)] \<and>
               requests st' =
                 filter (\<lambda>x. req_id (request x) \<noteq> req_id (request ev)) captured"
    if "client_respond E (log_event (LogError e) st2) (topic ev) ?err = (st3, Inr ())"
      and "st' = removeFromPending captured st3 ev"
      and "delivered (trace st2) = delivered (trace st)"
    for e st2 st3
    using client_respond_cases(1)[OF that(1)] that(2,3)
    by (simp add: removeFromPending_def log_event_def delivered_append)
  show ?thesis
  proof (cases r1)
    case (Inl e)
    with assms c m obtain st3 where
      "client_respond E (log_event (LogError e) st1) (topic ev) ?err = (st3, Inr ())"
      "st' = removeFromPending captured st3 ev"
      by (auto simp: approveRequest_def split: prod.splits sum.splits)
    from catch[OF this] f1 show ?thesis by auto
  next
    case (Inr v)
    obtain st2 r2 where r: "client_respond E st1 (topic ev) (Result v) = (st2, r2)"
      by (cases "client_respond E st1 (topic ev) (Result v)")
    show ?thesis
    proof (cases r2)
      case (Inr u)
      with assms c m \<open>r1 = Inr v\<close> r have st': "st' = removeFromPending captured st2 ev"
        by (auto simp: approveRequest_def)
      from client_respond_cases(1)[OF r[unfolded Inr]] st' f1
      have "delivered (trace st') = delivered (trace st) @ [(topic ev, Result v)] \<and>
            requests st' =
              filter (\<lambda>x. req_id (request x) \<noteq> req_id (request ev)) captured"
        by (simp add: removeFromPending_def log_event_def delivered_append)
      with m \<open>r1 = Inr v\<close> show ?thesis by auto
    next
      case (Inl e)
      with assms c m \<open>r1 = Inr v\<close> r obtain st3 where
        "client_respond E (log_event (LogError e) st2) (topic ev) ?err = (st3, Inr ())"
        "st' = removeFromPending captured st3 ev"
        by (auto simp: approveRequest_def split: prod.splits sum.splits)
      moreover from client_respond_cases(2)[OF r[unfolded Inl]] f1
      have "delivered (trace st2) = delivered (trace st)"
        by (simp add: log_event_def delivered_append)
      ultimately show ?thesis using catch by blast
    qed
  qed
qed

lemma rejectRequest_returns:
  assumes "rejectRequest E captured st ev = (st', Inr ())"
  shows "delivered (trace st') =
           delivered (trace st) @
           [(topic ev, formatJsonRpcError (req_id (request ev)) ''Failed or Rejected Request'')] \<and>
         requests st' =
           filter (\<lambda>x. req_id (request x) \<noteq> req_id (request ev)) captured"
proof -
  let ?err = "formatJsonRpcError (req_id (request ev)) ''Failed or Rejected Request''"
  from assms obtain st1 where
    "client_respond E st (topic ev) ?err = (st1, Inr ())"
    "st' = removeFromPending captured st1 ev"
    by (auto simp: rejectRequest_def split: if_splits prod.splits sum.splits)
  from client_respond_cases(1)[OF this(1)] this(2) show ?thesis
    by (simp add: removeFromPending_def log_event_def delivered_append)
qed

lemma client_respond_frame:
  "client_respond E st t r = (st', x) \<Longrightarrow>
   same_session_data st st' \<and> auto_accept_calls (trace st') = auto_accept_calls (trace st) \<and>
   request_calls (trace st') = request_calls (trace st)"
  by (auto simp: client_respond_def same_session_data_def log_event_def
      auto_accept_calls_append request_calls_append split: option.splits)

lemma respondRequest_frame:
  "respondRequest E st t r = (st', x) \<Longrightarrow>
   same_session_data st st' \<and> auto_accept_calls (trace st') = auto_accept_calls (trace st) \<and>
   request_calls (trace st') = request_calls (trace st)"
  by (auto simp: respondRequest_def same_session_data_def dest!: client_respond_frame
      split: if_splits)

lemma same_session_data_trans:
  "same_session_data a b \<Longrightarrow> same_session_data b c \<Longrightarrow> same_session_data a c"
  by (simp add: same_session_data_def)

lemma approve_frame:
  assumes "approve E held st ev = (st', x)"
  shows "same_session_data st st' \<and> auto_accept_calls (trace st') = auto_accept_calls (trace st)"
proof -
  obtain st1 r1 where m: "makeRequest held st (OfRequest (request ev)) = (st1, r1)"
    by (cases "makeRequest held st (OfRequest (request ev))")
  note f = makeRequest_frame[OF m]
  show ?thesis
  proof (cases r1)
    case (Inl e)
    with assms m f show ?thesis by (simp add: approve_def)
  next
    case (Inr v)
    with assms m have "respondRequest E st1 (topic ev) (Result v) = (st', x)"
      by (simp add: approve_def)
    from respondRequest_frame[OF this] f show ?thesis
      by (auto intro: same_session_data_trans)
  qed
qed

lemma settle_trace_requests:
  "request_calls (trace (fst (settle st pl res))) = request_calls (trace st)"
  using settle_frame[of st pl res "fst (settle st pl res)" "snd (settle st pl res)"]
  by simp

lemma makeRequest_calls:
  assumes "held = Some cb" and "accounts st = acc # rest"
  shows "request_calls (trace (fst (makeRequest held st pl))) =
           request_calls (trace st) @
           [(address_of acc, chainId_of acc, pl)]"
proof -
  let ?a = "address_of acc"
  let ?c = "chainId_of acc"
  show ?thesis
  proof (cases "cb ?a ?c pl")
    case (Fulfilled v)
    with assms show ?thesis
      by (simp add: makeRequest_def Let_def settle_trace_requests log_event_def
          request_calls_append)
  next
    case (Rejected e)
    with assms show ?thesis
      by (simp add: makeRequest_def Let_def settle_trace_requests log_event_def
          request_calls_append)
  next
    case (Raised e)
    with assms show ?thesis
      by (simp add: makeRequest_def Let_def log_event_def request_calls_append)
  qed
qed


section \<open>Properties of manual approval and rejection\<close>

lemma sample_address:
  "address_of ''neo3:N3:NTrezR3C4X8aMLVg7vozt5wguyNfFhwuFx'' =
     JStr ''NTrezR3C4X8aMLVg7vozt5wguyNfFhwuFx''"
  "chainId_of ''neo3:N3:NTrezR3C4X8aMLVg7vozt5wguyNfFhwuFx'' = ''neo3:N3''"
  by (simp_all add: address_of_def chainId_of_def part_def template_def)

text \<open>The sample request callback, applied by \<open>makeRequest\<close> to a state with the sample account.\<close>

lemma sample_makeRequest:
  assumes "accounts st = [''neo3:N3:NTrezR3C4X8aMLVg7vozt5wguyNfFhwuFx'']"
  shows "makeRequest (Some sample_facade) st pl =
           ((log_event (RequestCallback (JStr ''NTrezR3C4X8aMLVg7vozt5wguyNfFhwuFx'')
                          ''neo3:N3'' pl) st)\<lparr>error := JUndefined\<rparr>,
            Inr sample_result)"
proof -
  have "settle s pl sample_result = (s\<lparr>error := JUndefined\<rparr>, Inr sample_result)" for s
    by (simp add: settle_def sample_result_def field_def Let_def)
  with assms show ?thesis
    by (simp add: makeRequest_def sample_address sample_facade_def Let_def)
qed

lemma sample_approveRequest_respond:
  assumes "accounts st = [''neo3:N3:NTrezR3C4X8aMLVg7vozt5wguyNfFhwuFx'']"
  shows "approveRequest_respond sample_env (Some sample_facade) st ev =
           (log_event (Respond (topic ev) (Result sample_result))
              ((log_event (RequestCallback (JStr ''NTrezR3C4X8aMLVg7vozt5wguyNfFhwuFx'')
                             ''neo3:N3'' (OfEvent ev))
                  (st\<lparr>storage := (storage st)(cache_key sample_env (request ev) \<mapsto> JBool True)\<rparr>))
               \<lparr>error := JUndefined\<rparr>),
            Inr ())"
  using assms
  by (simp add: approveRequest_respond_def approveAndMakeRequest_def sample_makeRequest
      client_respond_def sample_env_def)

lemma sample_approveRequest:
  assumes "accounts st = [''neo3:N3:NTrezR3C4X8aMLVg7vozt5wguyNfFhwuFx'']"
    and "wcClient st \<noteq> None"
  shows "approveRequest sample_env (Some sample_facade) captured st ev =
           (removeFromPending captured
              (fst (approveRequest_respond sample_env (Some sample_facade) st ev)) ev,
            Inr ())"
  using assms by (simp add: approveRequest_def sample_approveRequest_respond)

text \<open>
  C1 fails on the code. Two requests are pending and both are approved from the same
  render, the second before the first approval has finished, so both approvals hold the
  same captured array. Each sends its one response. The first stores the array without
  request 1; the second then stores the array without request 2, which puts request 1
  back: it has been answered and is pending still. The statement gives the interleaved
  run (both approvals answer, then both remove) and the run of one approval after the
  other; the pending collection and the delivered responses are the same in both.
\<close>

theorem answered_request_stays_pending:
  "requests sample_two_pending = [sample_event, sample_event2] \<and>
   requests
     (removeFromPending (requests sample_two_pending)
        (removeFromPending (requests sample_two_pending)
           (fst (approveRequest_respond sample_env (Some sample_facade)
              (fst (approveRequest_respond sample_env (Some sample_facade)
                      sample_two_pending sample_event))
              sample_event2))
           sample_event)
        sample_event2) = [sample_event] \<and>
   delivered (trace
     (removeFromPending (requests sample_two_pending)
        (removeFromPending (requests sample_two_pending)
           (fst (approveRequest_respond sample_env (Some sample_facade)
              (fst (approveRequest_respond sample_env (Some sample_facade)
                      sample_two_pending sample_event))
              sample_event2))
           sample_event)
        sample_event2)) =
     [(''6f2a'', Result sample_result), (''8c1d'', Result sample_result)] \<and>
   requests
     (fst (approveRequest sample_env (Some sample_facade) (requests sample_two_pending)
        (fst (approveRequest sample_env (Some sample_facade) (requests sample_two_pending)
                sample_two_pending sample_event))
        sample_event2)) = [sample_event] \<and>
   delivered (trace
     (fst (approveRequest sample_env (Some sample_facade) (requests sample_two_pending)
        (fst (approveRequest sample_env (Some sample_facade) (requests sample_two_pending)
                sample_two_pending sample_event))
        sample_event2))) =
     [(''6f2a'', Result sample_result), (''8c1d'', Result sample_result)]"
proof -
  have a: "accounts sample_two_pending = [''neo3:N3:NTrezR3C4X8aMLVg7vozt5wguyNfFhwuFx'']"
    and c: "wcClient sample_two_pending \<noteq> None"
    and r: "requests sample_two_pending = [sample_event, sample_event2]"
    and t: "trace sample_two_pending = []"
    by (simp_all add: sample_two_pending_def sample_state_def)
  have ids: "req_id (request sample_event) = 1" "req_id (request sample_event2) = 2"
    "topic sample_event = ''6f2a''" "topic sample_event2 = ''8c1d''"
    by (simp_all add: sample_event_def sample_event2_def sample_request_def)
  show ?thesis
    by (simp add: sample_approveRequest sample_approveRequest_respond removeFromPending_def
        a c r t ids log_event_def)
qed

text \<open>
  Had the second approval filtered the array of the state at the time, as the functional
  update of \<^verbatim>\<open>askApproval\<close> does, nothing would be pending.
\<close>

lemma second_approval_on_current_requests:
  "requests
     (fst (approveRequest sample_env (Some sample_facade)
        (requests (fst (approveRequest sample_env (Some sample_facade)
                          (requests sample_two_pending) sample_two_pending sample_event)))
        (fst (approveRequest sample_env (Some sample_facade) (requests sample_two_pending)
                sample_two_pending sample_event))
        sample_event2)) = []"
proof -
  have a: "accounts sample_two_pending = [''neo3:N3:NTrezR3C4X8aMLVg7vozt5wguyNfFhwuFx'']"
    and c: "wcClient sample_two_pending \<noteq> None"
    and r: "requests sample_two_pending = [sample_event, sample_event2]"
    by (simp_all add: sample_two_pending_def sample_state_def)
  have ids: "req_id (request sample_event) = 1" "req_id (request sample_event2) = 2"
    by (simp_all add: sample_event_def sample_event2_def sample_request_def)
  show ?thesis
    by (simp add: sample_approveRequest sample_approveRequest_respond removeFromPending_def
        a c r ids log_event_def)
qed


section \<open>Properties of the approval cache\<close>

lemma cached_routing:
  assumes "truthy (checkApprovedRequest E st (request ev))"
  shows "on_session_request E held st ev =
           (case approve E held st ev of
              (st1, Inl e) \<Rightarrow> reject E st1 ev (message_of e)
            | (st1, Inr u) \<Rightarrow> (st1, Inr ()))"
  using assms by (simp add: on_session_request_def decide_def)

lemma cached_frame:
  assumes "truthy (checkApprovedRequest E st (request ev))"
  shows "requests (fst (on_session_request E held st ev)) = requests st \<and>
         auto_accept_calls (trace (fst (on_session_request E held st ev))) =
           auto_accept_calls (trace st)"
proof -
  obtain st1 r1 where a: "approve E held st ev = (st1, r1)" by (cases "approve E held st ev")
  note f = approve_frame[OF a]
  show ?thesis
  proof (cases r1)
    case (Inr u)
    with a f show ?thesis by (simp add: cached_routing[OF assms] same_session_data_def)
  next
    case (Inl e)
    obtain st2 r2 where r: "reject E st1 ev (message_of e) = (st2, r2)"
      by (cases "reject E st1 ev (message_of e)")
    from respondRequest_frame[OF r[unfolded reject_def]] f a Inl r show ?thesis
      by (simp add: cached_routing[OF assms] same_session_data_def)
  qed
qed

lemma cached_calls:
  assumes "truthy (checkApprovedRequest E st (request ev))"
    and "held = Some cb" and "accounts st = acc # rest"
  shows "request_calls (trace (fst (on_session_request E held st ev))) =
           request_calls (trace st) @
           [(address_of acc, chainId_of acc, OfRequest (request ev))]"
proof -
  obtain st1 r1 where m: "makeRequest held st (OfRequest (request ev)) = (st1, r1)"
    by (cases "makeRequest held st (OfRequest (request ev))")
  from makeRequest_calls[OF assms(2,3), of "OfRequest (request ev)"] m
  have c: "request_calls (trace st1) = request_calls (trace st) @
           [(address_of acc, chainId_of acc, OfRequest (request ev))]"
    by simp
  show ?thesis
  proof (cases r1)
    case (Inl e)
    obtain st2 r2 where r: "reject E st1 ev (message_of e) = (st2, r2)"
      by (cases "reject E st1 ev (message_of e)")
    from respondRequest_frame[OF r[unfolded reject_def]] m Inl r c show ?thesis
      by (simp add: cached_routing[OF assms(1)] approve_def)
  next
    case (Inr v)
    obtain st2 r2 where r: "respondRequest E st1 (topic ev) (Result v) = (st2, r2)"
      by (cases "respondRequest E st1 (topic ev) (Result v)")
    note f = respondRequest_frame[OF r]
    show ?thesis
    proof (cases r2)
      case (Inr u)
      with f m \<open>r1 = Inr v\<close> r c show ?thesis
        by (simp add: cached_routing[OF assms(1)] approve_def)
    next
      case (Inl e)
      obtain st3 r3 where r': "reject E st2 ev (message_of e) = (st3, r3)"
        by (cases "reject E st2 ev (message_of e)")
      from respondRequest_frame[OF r'[unfolded reject_def]] f m \<open>r1 = Inr v\<close> r Inl r' c
      show ?thesis
        by (simp add: cached_routing[OF assms(1)] approve_def)
    qed
  qed
qed

lemma cached_without_callback:
  assumes "truthy (checkApprovedRequest E st (request ev))"
    and "held = None" and "accounts st \<noteq> []" and "wcClient st \<noteq> None"
    and "respond E (topic ev)
           (formatJsonRpcError (req_id (request ev)) ''There is no onRequestCallback'') = None"
  shows "on_session_request E held st ev =
           (log_event (Respond (topic ev)
              (formatJsonRpcError (req_id (request ev)) ''There is no onRequestCallback'')) st,
            Inr ())"
  using assms
  by (auto simp: cached_routing approve_def makeRequest_def reject_def respondRequest_def
      client_respond_def Let_def split: list.splits)

lemma settle_returns:
  "res \<noteq> JUndefined \<Longrightarrow> res \<noteq> JNull \<Longrightarrow> snd (settle st pl res) = Inr res"
  by (cases res) (auto simp: settle_def Let_def)

lemma settle_delivered:
  "delivered (trace (fst (settle st pl res))) = delivered (trace st)"
  using settle_frame[of st pl res "fst (settle st pl res)" "snd (settle st pl res)"]
  by simp

lemma settle_client:
  "wcClient (fst (settle st pl res)) = wcClient st"
  using settle_frame[of st pl res "fst (settle st pl res)" "snd (settle st pl res)"]
  by (simp add: same_session_data_def)

lemma cached_fulfilled:
  assumes "truthy (checkApprovedRequest E st (request ev))"
    and "held = Some cb" and "accounts st = acc # rest"
    and "cb (address_of acc) (chainId_of acc) (OfRequest (request ev)) = Fulfilled v"
    and "v \<noteq> JUndefined" and "v \<noteq> JNull"
    and "wcClient st \<noteq> None" and "respond E (topic ev) (Result v) = None"
  shows "snd (on_session_request E held st ev) = Inr () \<and>
         delivered (trace (fst (on_session_request E held st ev))) =
           delivered (trace st) @ [(topic ev, Result v)]"
proof -
  let ?st1 = "log_event (RequestCallback (address_of acc) (chainId_of acc) (OfRequest (request ev))) st"
  have m: "makeRequest held st (OfRequest (request ev)) = settle ?st1 (OfRequest (request ev)) v"
    using assms(2,3,4) by (simp add: makeRequest_def Let_def)
  obtain st2 where s: "settle ?st1 (OfRequest (request ev)) v = (st2, Inr v)"
    using settle_returns[OF assms(5,6), of ?st1 "OfRequest (request ev)"]
    by (cases "settle ?st1 (OfRequest (request ev)) v") auto
  from settle_delivered[of ?st1 "OfRequest (request ev)" v] s
  have d: "delivered (trace st2) = delivered (trace st)"
    by (simp add: log_event_def delivered_append)
  from settle_client[of ?st1 "OfRequest (request ev)" v] s assms(7)
  have c: "wcClient st2 \<noteq> None" by (simp add: log_event_def)
  have a: "approve E held st ev = respondRequest E st2 (topic ev) (Result v)"
    by (simp add: approve_def m s)
  have r: "respondRequest E st2 (topic ev) (Result v) =
             (log_event (Respond (topic ev) (Result v)) st2, Inr ())"
    using assms(8) c by (simp add: respondRequest_def client_respond_def)
  show ?thesis
    using d by (simp add: cached_routing[OF assms(1)] a r log_event_def delivered_append)
qed

lemma storage_log_event [simp]: "storage (log_event x s) = storage s"
  by (simp add: log_event_def)

lemma storage_removeFromPending [simp]: "storage (removeFromPending captured s ev) = storage s"
  by (simp add: removeFromPending_def)

lemma storage_client_respond:
  "client_respond E s t r = (s', x) \<Longrightarrow> storage s' = storage s"
  by (auto simp: client_respond_def split: option.splits)

lemma approveRequest_records:
  assumes "wcClient st \<noteq> None"
  shows "checkApprovedRequest E (fst (approveRequest E held captured st ev)) (request ev) = JBool True"
proof -
  obtain st1 r1 where m: "approveAndMakeRequest E held st ev = (st1, r1)"
    by (cases "approveAndMakeRequest E held st ev")
  from approveAndMakeRequest_frame[OF m]
  have s: "storage st1 (cache_key E (request ev)) = Some (JBool True)" by simp
  have "storage (fst (approveRequest E held captured st ev)) = storage st1"
    using assms m
    by (auto simp: approveRequest_def approveRequest_respond_def split: prod.splits sum.splits
        dest!: storage_client_respond)
  with s show ?thesis by (simp add: checkApprovedRequest_def)
qed

text \<open>
  C5, as stated, fails: with the request in the approval cache and no request callback
  registered (so \<^verbatim>\<open>makeRequest\<close> holds none either), the request is not fulfilled;
  \<^verbatim>\<open>makeRequest\<close> throws and the handler answers with the error
  \<^verbatim>\<open>There is no onRequestCallback\<close>.
\<close>

theorem cached_request_without_callback:
  "truthy (checkApprovedRequest sample_env
             (sample_cached_state\<lparr>onRequestCallback := None\<rparr>) (request sample_event)) \<and>
   on_session_request sample_env None (sample_cached_state\<lparr>onRequestCallback := None\<rparr>)
       sample_event =
     (sample_cached_state\<lparr>onRequestCallback := None,
        trace := [Respond ''6f2a'' (JsonRpcError 1 ''There is no onRequestCallback'')]\<rparr>,
      Inr ())"
  by (simp add: on_session_request_def decide_def checkApprovedRequest_def cache_key_def
      sample_cached_state_def sample_state_def sample_env_def sample_event_def
      sample_request_def approve_def makeRequest_def reject_def respondRequest_def
      client_respond_def log_event_def formatJsonRpcError_def Let_def)

text \<open>
  The same answer comes when a request callback is registered now but the memoised
  \<^verbatim>\<open>makeRequest\<close> still holds none, because the accounts have not changed since.
\<close>

lemma cached_request_with_stale_callback:
  "onRequestCallback sample_cached_state = Some sample_facade \<and>
   on_session_request sample_env None sample_cached_state sample_event =
     (sample_cached_state
        \<lparr>trace := [Respond ''6f2a'' (JsonRpcError 1 ''There is no onRequestCallback'')]\<rparr>,
      Inr ())"
  by (simp add: on_session_request_def decide_def checkApprovedRequest_def cache_key_def
      sample_cached_state_def sample_state_def sample_env_def sample_event_def
      sample_request_def approve_def makeRequest_def reject_def respondRequest_def
      client_respond_def log_event_def formatJsonRpcError_def Let_def)

text \<open>
  C5, amended. In a run of the handler for a request event whose serialized request is in
  the approval cache, the handler takes the approve path and nothing else: the auto-accept
  callback is not called and the pending collection is left as it is. When the
  \<^verbatim>\<open>makeRequest\<close> of that handler holds a request callback and an account is present, the
  run calls that callback once, with the address and chain of the first account and the
  request; when the callback is fulfilled with a value other than \<^verbatim>\<open>undefined\<close> and \<^verbatim>\<open>null\<close>
  and the transport delivers, the run delivers that value as its response. When it holds
  no request callback the response is the error \<^verbatim>\<open>There is no onRequestCallback\<close>. A manual
  approval, however it ends, leaves the cache entry of the request's serialized form, so
  a later event with the same serialized request is handled this way. Which callback the
  memoised \<^verbatim>\<open>makeRequest\<close> holds, and how many handlers run for one event, is not part of
  the statement.
\<close>

theorem cached_request_bypasses_policy:
  assumes "truthy (checkApprovedRequest E st (request ev))"
  shows "on_session_request E held st ev =
           (case approve E held st ev of
              (st1, Inl e) \<Rightarrow> reject E st1 ev (message_of e)
            | (st1, Inr u) \<Rightarrow> (st1, Inr ())) \<and>
         requests (fst (on_session_request E held st ev)) = requests st \<and>
         auto_accept_calls (trace (fst (on_session_request E held st ev))) =
           auto_accept_calls (trace st) \<and>
         (\<forall>cb acc rest. held = Some cb \<and> accounts st = acc # rest \<longrightarrow>
            request_calls (trace (fst (on_session_request E held st ev))) =
              request_calls (trace st) @
              [(address_of acc, chainId_of acc, OfRequest (request ev))]) \<and>
         (\<forall>cb acc rest v.
            held = Some cb \<and> accounts st = acc # rest \<and>
            cb (address_of acc) (chainId_of acc) (OfRequest (request ev)) = Fulfilled v \<and>
            v \<noteq> JUndefined \<and> v \<noteq> JNull \<and>
            wcClient st \<noteq> None \<and> respond E (topic ev) (Result v) = None \<longrightarrow>
            snd (on_session_request E held st ev) = Inr () \<and>
            delivered (trace (fst (on_session_request E held st ev))) =
              delivered (trace st) @ [(topic ev, Result v)]) \<and>
         (held = None \<and> accounts st \<noteq> [] \<and> wcClient st \<noteq> None \<and>
          respond E (topic ev)
            (formatJsonRpcError (req_id (request ev)) ''There is no onRequestCallback'') = None \<longrightarrow>
            on_session_request E held st ev =
              (log_event (Respond (topic ev)
                 (formatJsonRpcError (req_id (request ev)) ''There is no onRequestCallback'')) st,
               Inr ())) \<and>
         (\<forall>held0 captured0 st0 ev0. wcClient st0 \<noteq> None \<and>
            JSON_stringify E (request ev0) = JSON_stringify E (request ev) \<longrightarrow>
            truthy (checkApprovedRequest E (fst (approveRequest E held0 captured0 st0 ev0)) (request ev)))"
proof (intro conjI allI impI)
  show "on_session_request E held st ev =
           (case approve E held st ev of
              (st1, Inl e) \<Rightarrow> reject E st1 ev (message_of e)
            | (st1, Inr u) \<Rightarrow> (st1, Inr ()))"
    by (rule cached_routing[OF assms])
  show "requests (fst (on_session_request E held st ev)) = requests st"
    using cached_frame[OF assms] by simp
  show "auto_accept_calls (trace (fst (on_session_request E held st ev))) =
           auto_accept_calls (trace st)"
    using cached_frame[OF assms] by simp
next
  fix cb acc rest
  assume "held = Some cb \<and> accounts st = acc # rest"
  then show "request_calls (trace (fst (on_session_request E held st ev))) =
              request_calls (trace st) @
              [(address_of acc, chainId_of acc, OfRequest (request ev))]"
    using cached_calls[OF assms] by blast
next
  fix cb acc rest v
  assume h: "held = Some cb \<and> accounts st = acc # rest \<and>
            cb (address_of acc) (chainId_of acc) (OfRequest (request ev)) = Fulfilled v \<and>
            v \<noteq> JUndefined \<and> v \<noteq> JNull \<and>
            wcClient st \<noteq> None \<and> respond E (topic ev) (Result v) = None"
  from cached_fulfilled[OF assms, where cb = cb and acc = acc and rest = rest and v = v] h
  show "snd (on_session_request E held st ev) = Inr ()"
    and "delivered (trace (fst (on_session_request E held st ev))) =
              delivered (trace st) @ [(topic ev, Result v)]"
    by simp_all
next
  assume "held = None \<and> accounts st \<noteq> [] \<and> wcClient st \<noteq> None \<and>
          respond E (topic ev)
            (formatJsonRpcError (req_id (request ev)) ''There is no onRequestCallback'') = None"
  then show "on_session_request E held st ev =
              (log_event (Respond (topic ev)
                 (formatJsonRpcError (req_id (request ev)) ''There is no onRequestCallback'')) st,
               Inr ())"
    using cached_without_callback[OF assms] by blast
next
  fix held0 :: "request_callback option" and captured0 :: "request_event list"
    and st0 :: wc_state and ev0 :: request_event
  assume h: "wcClient st0 \<noteq> None \<and>
            JSON_stringify E (request ev0) = JSON_stringify E (request ev)"
  then have "checkApprovedRequest E (fst (approveRequest E held0 captured0 st0 ev0)) (request ev) =
             checkApprovedRequest E (fst (approveRequest E held0 captured0 st0 ev0)) (request ev0)"
    by (simp add: checkApprovedRequest_def cache_key_def)
  with approveRequest_records[of st0 E held0 captured0 ev0] h
  show "truthy (checkApprovedRequest E (fst (approveRequest E held0 captured0 st0 ev0)) (request ev))"
    by simp
qed

lemma sample_cached_hit:
  "truthy (checkApprovedRequest sample_env sample_cached_state (request sample_event))"
  by (simp add: checkApprovedRequest_def cache_key_def sample_cached_state_def sample_env_def
      sample_event_def sample_request_def)

text \<open>
  C5, amended, on the sample controller with the request cached and a handler whose
  \<^verbatim>\<open>makeRequest\<close> holds the sample request callback: the auto-accept callback, which would
  decline, is not called, the queue is unchanged, and the request callback is called once
  in the run, with the account's address and chain.
\<close>

theorem cached_request_bypasses_policy_witness:
  "truthy (checkApprovedRequest sample_env sample_cached_state (request sample_event)) \<and>
   autoAcceptCallback sample_cached_state = Some auto_decline \<and>
   requests (fst (on_session_request sample_env (Some sample_facade) sample_cached_state sample_event)) =
     [sample_event] \<and>
   auto_accept_calls (trace (fst (on_session_request sample_env (Some sample_facade) sample_cached_state
     sample_event))) = [] \<and>
   request_calls (trace (fst (on_session_request sample_env (Some sample_facade) sample_cached_state
     sample_event))) =
     [(JStr ''NTrezR3C4X8aMLVg7vozt5wguyNfFhwuFx'', ''neo3:N3'', OfRequest sample_request)]"
proof -
  have cb: "accounts sample_cached_state = [''neo3:N3:NTrezR3C4X8aMLVg7vozt5wguyNfFhwuFx'']"
    by (simp add: sample_cached_state_def sample_state_def)
  have s: "requests sample_cached_state = [sample_event]"
      "trace sample_cached_state = []"
      "autoAcceptCallback sample_cached_state = Some auto_decline"
    by (simp_all add: sample_cached_state_def sample_state_def)
  from cached_request_bypasses_policy
         [OF sample_cached_hit, where held = "Some sample_facade"] cb
  have "requests (fst (on_session_request sample_env (Some sample_facade) sample_cached_state sample_event)) =
          requests sample_cached_state"
    "auto_accept_calls (trace (fst (on_session_request sample_env (Some sample_facade) sample_cached_state
       sample_event))) = auto_accept_calls (trace sample_cached_state)"
    "request_calls (trace (fst (on_session_request sample_env (Some sample_facade) sample_cached_state
       sample_event))) = request_calls (trace sample_cached_state) @
       [(address_of ''neo3:N3:NTrezR3C4X8aMLVg7vozt5wguyNfFhwuFx'',
         chainId_of ''neo3:N3:NTrezR3C4X8aMLVg7vozt5wguyNfFhwuFx'',
         OfRequest (request sample_event))]"
    by blast+
  with s sample_cached_hit show ?thesis
    by (simp add: sample_address sample_event_def)
qed


section \<open>Properties of the session reset\<close>

lemma foldl_remove_keys:
  "foldl (\<lambda>ls k. filter (\<lambda>kv. fst kv \<noteq> k) ls) ls ks = filter (\<lambda>kv. fst kv \<notin> set ks) ls"
  by (induction ks arbitrary: ls) (auto intro: filter_cong)

lemma clearStorage_eq:
  "clearStorage st =
     st\<lparr>localStorage := filter (\<lambda>kv. take 2 (fst kv) \<noteq> ''wc'') (localStorage st)\<rparr>"
proof -
  have "filter (\<lambda>kv. fst kv \<notin> set (filter (\<lambda>k. take 2 k = ''wc'') (map fst (localStorage st))))
          (localStorage st) =
        filter (\<lambda>kv. take 2 (fst kv) \<noteq> ''wc'') (localStorage st)"
    by (rule filter_cong) auto
  then show ?thesis by (simp add: clearStorage_def foldl_remove_keys)
qed

lemma disconnectEach_frame:
  "disconnectEach E st ts = (st', r) \<Longrightarrow>
   local_collections st' = local_collections st \<and>
   (wcClient st' = None \<longleftrightarrow> wcClient st = None)"
proof (induction ts arbitrary: st st' r)
  case Nil
  then show ?case by simp
next
  case (Cons t ts)
  show ?case
  proof (cases "wcClient st")
    case None
    with Cons show ?thesis by simp
  next
    case (Some c)
    obtain x c' where d: "disconnect E c t = (x, c')" by (cases "disconnect E c t")
    show ?thesis
    proof (cases x)
      case None
      with Cons.prems Some d
      have "disconnectEach E (log_event (Disconnect t) (st\<lparr>wcClient := Some c'\<rparr>)) ts = (st', r)"
        by simp
      from Cons.IH[OF this] Some show ?thesis
        by (simp add: local_collections_def log_event_def)
    next
      case (Some e)
      obtain st2 r2 where
        n: "disconnectEach E (log_event (DisconnectFailed t e) (st\<lparr>wcClient := Some c'\<rparr>)) ts
              = (st2, r2)"
        by (cases "disconnectEach E (log_event (DisconnectFailed t e) (st\<lparr>wcClient := Some c'\<rparr>)) ts")
      with Cons.prems \<open>wcClient st = Some c\<close> d Some have "st' = st2" by simp
      with Cons.IH[OF n] \<open>wcClient st = Some c\<close> show ?thesis
        by (simp add: local_collections_def log_event_def)
    qed
  qed
qed

lemma disconnectEach_ok:
  "\<forall>c t. fst (disconnect E c t) = None \<Longrightarrow> snd (disconnectEach E st ts) = None"
proof (induction ts arbitrary: st)
  case Nil
  then show ?case by simp
next
  case (Cons t ts)
  show ?case
  proof (cases "wcClient st")
    case None
    with Cons show ?thesis by simp
  next
    case (Some c)
    obtain x c' where d: "disconnect E c t = (x, c')" by (cases "disconnect E c t")
    with Cons.prems have "x = None" by (metis fst_conv)
    with Some d Cons.IH[OF Cons.prems] show ?thesis by simp
  qed
qed

lemma resetApp_quiet:
  assumes "quiet st"
  shows "resetApp E st =
           st\<lparr>localStorage := filter (\<lambda>kv. take 2 (fst kv) \<noteq> ''wc'') (localStorage st),
              wcClient := None, sessionProposals := [], initialized := False,
              accounts := [], sessions := [], requests := [], results := []\<rparr>"
  using assms by (auto simp: quiet_def resetApp_def clearStorage_eq split: option.splits)

lemma failed_disconnects_append:
  "failed_disconnects (xs @ ys) = failed_disconnects xs @ failed_disconnects ys"
  by (induction xs rule: failed_disconnects.induct) simp_all

text \<open>
  A round of disconnects reports a failure exactly when one of its disconnects failed.
\<close>

lemma disconnectEach_failures:
  "disconnectEach E st ts = (st', r) \<Longrightarrow>
   \<exists>fs. failed_disconnects (trace st') = failed_disconnects (trace st) @ fs \<and>
        (fs = [] \<longleftrightarrow> r = None)"
proof (induction ts arbitrary: st st' r)
  case Nil
  then show ?case by simp
next
  case (Cons t ts)
  show ?case
  proof (cases "wcClient st")
    case None
    with Cons show ?thesis by simp
  next
    case (Some c)
    obtain x c' where d: "disconnect E c t = (x, c')" by (cases "disconnect E c t")
    show ?thesis
    proof (cases x)
      case None
      with Cons.prems Some d
      have "disconnectEach E (log_event (Disconnect t) (st\<lparr>wcClient := Some c'\<rparr>)) ts = (st', r)"
        by simp
      from Cons.IH[OF this] show ?thesis
        by (simp add: log_event_def failed_disconnects_append)
    next
      case (Some e)
      obtain st2 r2 where
        n: "disconnectEach E (log_event (DisconnectFailed t e) (st\<lparr>wcClient := Some c'\<rparr>)) ts
              = (st2, r2)"
        by (cases "disconnectEach E (log_event (DisconnectFailed t e) (st\<lparr>wcClient := Some c'\<rparr>)) ts")
      with Cons.prems \<open>wcClient st = Some c\<close> d Some have s: "st' = st2" "r = Some e" by simp_all
      from Cons.IH[OF n] obtain fs where
        "failed_disconnects (trace st2) =
           failed_disconnects (trace (log_event (DisconnectFailed t e) (st\<lparr>wcClient := Some c'\<rparr>)))
           @ fs"
        by blast
      then have "failed_disconnects (trace st') = failed_disconnects (trace st) @ ((t, e) # fs)"
        using s by (simp add: log_event_def failed_disconnects_append)
      with s show ?thesis by blast
    qed
  qed
qed

text \<open>
  The result of \<open>resetApp\<close>: the cleared state when no disconnect failed, a logged failure
  with the collections as they were when one did.
\<close>

lemma resetApp_cases:
  obtains (wiped) st2 where
      "resetApp E st =
         st2\<lparr>localStorage := filter (\<lambda>kv. take 2 (fst kv) \<noteq> ''wc'') (localStorage st2),
             wcClient := None, sessionProposals := [], initialized := False,
             accounts := [], sessions := [], requests := [], results := []\<rparr>"
      "failed_disconnects (trace st2) = failed_disconnects (trace st)"
    | (kept) st2 e where
      "resetApp E st = log_event (LogError e) st2"
      "local_collections st2 = local_collections st"
      "sessions st \<noteq> [] \<or> wcClient st2 \<noteq> None"
      "failed_disconnects (trace st2) \<noteq> failed_disconnects (trace st)"
proof -
  obtain st1 r1 where p1: "(if sessions st \<noteq> []
            then disconnectEach E st (map session_topic (sessions st))
            else (st, None)) = (st1, r1)"
    by (cases "if sessions st \<noteq> []
            then disconnectEach E st (map session_topic (sessions st))
            else (st, None)")
  have f1: "local_collections st1 = local_collections st \<and>
            (wcClient st1 = None \<longleftrightarrow> wcClient st = None)"
    using p1 disconnectEach_frame[of E st "map session_topic (sessions st)" st1 r1]
    by (auto split: if_splits)
  obtain fs1 where d1: "failed_disconnects (trace st1) = failed_disconnects (trace st) @ fs1"
      "fs1 = [] \<longleftrightarrow> r1 = None"
    using p1 disconnectEach_failures[of E st "map session_topic (sessions st)" st1 r1]
    by (auto split: if_splits)
  show ?thesis
  proof (cases r1)
    case (Some e)
    with p1 have "resetApp E st = log_event (LogError e) st1"
      by (simp add: resetApp_def)
    moreover from Some p1 have "sessions st \<noteq> []" by (auto split: if_splits)
    moreover from Some d1 have "failed_disconnects (trace st1) \<noteq> failed_disconnects (trace st)"
      by simp
    ultimately show ?thesis using f1 kept by blast
  next
    case None
    obtain st2 r2 where p2: "(case wcClient st1 of
                   None \<Rightarrow> (st1, None)
                 | Some c \<Rightarrow>
                     if session_values c \<noteq> []
                     then disconnectEach E st1 (map session_topic (session_values c))
                     else (st1, None)) = (st2, r2)"
      by (cases "case wcClient st1 of
                   None \<Rightarrow> (st1, None)
                 | Some c \<Rightarrow>
                     if session_values c \<noteq> []
                     then disconnectEach E st1 (map session_topic (session_values c))
                     else (st1, None)")
    have f2: "local_collections st2 = local_collections st1 \<and>
              (wcClient st2 = None \<longleftrightarrow> wcClient st1 = None)"
      using p2 by (auto split: option.splits if_splits dest: disconnectEach_frame)
    obtain fs2 where d2: "failed_disconnects (trace st2) = failed_disconnects (trace st1) @ fs2"
        "fs2 = [] \<longleftrightarrow> r2 = None"
      using p2 by (auto split: option.splits if_splits dest: disconnectEach_failures)
    from None d1 have e1: "failed_disconnects (trace st1) = failed_disconnects (trace st)"
      by simp
    show ?thesis
    proof (cases r2)
      case (Some e)
      with p1 None p2 have "resetApp E st = log_event (LogError e) st2"
        by (simp add: resetApp_def)
      moreover from Some p2 have "wcClient st1 \<noteq> None" by (auto split: option.splits)
      moreover from Some d2 e1
      have "failed_disconnects (trace st2) \<noteq> failed_disconnects (trace st)" by simp
      ultimately show ?thesis using f1 f2 kept by auto
    next
      case n2: None
      with d2 e1 have "failed_disconnects (trace st2) = failed_disconnects (trace st)" by simp
      with n2 p1 None p2 show ?thesis
        by (intro wiped[of st2]) (simp_all add: resetApp_def clearStorage_eq)
    qed
  qed
qed

lemma resetApp_ok:
  assumes "\<forall>c t. fst (disconnect E c t) = None"
  shows "cleared (resetApp E st) \<and> wcClient (resetApp E st) = None"
proof -
  have a: "snd (if sessions st \<noteq> []
            then disconnectEach E st (map session_topic (sessions st))
            else (st, None)) = None"
    using disconnectEach_ok[OF assms] by simp
  have b: "snd (case wcClient st1 of
                   None \<Rightarrow> (st1, None)
                 | Some c \<Rightarrow>
                     if session_values c \<noteq> []
                     then disconnectEach E st1 (map session_topic (session_values c))
                     else (st1, None)) = None" for st1
    using disconnectEach_ok[OF assms] by (simp split: option.splits)
  obtain st1 r1 where p1: "(if sessions st \<noteq> []
            then disconnectEach E st (map session_topic (sessions st))
            else (st, None)) = (st1, r1)"
    by (cases "if sessions st \<noteq> []
            then disconnectEach E st (map session_topic (sessions st))
            else (st, None)")
  with a have r1: "r1 = None" by simp
  obtain st2 r2 where p2: "(case wcClient st1 of
                   None \<Rightarrow> (st1, None)
                 | Some c \<Rightarrow>
                     if session_values c \<noteq> []
                     then disconnectEach E st1 (map session_topic (session_values c))
                     else (st1, None)) = (st2, r2)"
    by (cases "case wcClient st1 of
                   None \<Rightarrow> (st1, None)
                 | Some c \<Rightarrow>
                     if session_values c \<noteq> []
                     then disconnectEach E st1 (map session_topic (session_values c))
                     else (st1, None)")
  with b[of st1] have r2: "r2 = None" by simp
  show ?thesis
    using p1 p2 r1 r2 by (simp add: resetApp_def cleared_def clearStorage_eq)
qed

lemma resetApp_twice:
  assumes "cleared (resetApp E st)" and "wcClient (resetApp E st) = None"
  shows "resetApp E (resetApp E st) = resetApp E st"
proof (cases rule: resetApp_cases[of E st])
  case (wiped st2)
  have q: "quiet (resetApp E st)" using assms by (simp add: quiet_def cleared_def)
  show ?thesis
    unfolding resetApp_quiet[OF q] by (simp add: wiped)
next
  case (kept st2 e)
  with assms have False
    by (auto simp: cleared_def local_collections_def log_event_def)
  then show ?thesis ..
qed

text \<open>When no disconnect of the reset failed, the reset has cleared the state.\<close>

lemma resetApp_without_failure:
  assumes "failed_disconnects (trace (resetApp E st)) = failed_disconnects (trace st)"
  shows "cleared (resetApp E st) \<and> wcClient (resetApp E st) = None"
proof (cases rule: resetApp_cases[of E st])
  case (wiped st2)
  then show ?thesis by (simp add: cleared_def)
next
  case (kept st2 e)
  with assms have False by (simp add: log_event_def failed_disconnects_append)
  then show ?thesis ..
qed

text \<open>When a disconnect of the reset failed, the failure is logged and nothing is cleared.\<close>

lemma resetApp_with_failure:
  assumes "failed_disconnects (trace (resetApp E st)) \<noteq> failed_disconnects (trace st)"
  shows "(\<exists>e. last (trace (resetApp E st)) = LogError e) \<and>
         local_collections (resetApp E st) = local_collections st"
proof (cases rule: resetApp_cases[of E st])
  case (wiped st2)
  with assms have False by simp
  then show ?thesis ..
next
  case (kept st2 e)
  then show ?thesis by (simp add: log_event_def local_collections_def)
qed

text \<open>
  C8, as stated, fails: with no local session and no proposal, but a session in the client's
  store whose disconnect fails, two resets in a row leave the accounts and the pending
  requests in place. The failure is caught and logged before the state is cleared.
\<close>

theorem resetApp_keeps_state_when_disconnect_fails:
  "sessions sample_state = [] \<and> sessionProposals sample_state = [] \<and>
   accounts (resetApp sample_env_down (resetApp sample_env_down sample_state)) =
     [''neo3:N3:NTrezR3C4X8aMLVg7vozt5wguyNfFhwuFx''] \<and>
   requests (resetApp sample_env_down (resetApp sample_env_down sample_state)) = [sample_event]"
  by (simp add: resetApp_def sample_state_def sample_env_down_def log_event_def)

text \<open>
  C8, amended. \<^verbatim>\<open>resetApp\<close> has no exceptional result. When no session exists, locally or
  in the client's store, or when the client's disconnect does not fail, or more generally
  when no disconnect that the reset issues fails, the local session, proposal,
  pending-request, result and account collections are empty afterwards, the client is
  dropped, and a second reset in a row changes nothing. When a disconnect that the reset
  issues fails, the failure is logged and the five collections are left as they were.
\<close>

theorem resetApp_clears_unless_disconnect_fails:
  "(quiet st \<or> (\<forall>c t. fst (disconnect E c t) = None) \<or>
    failed_disconnects (trace (resetApp E st)) = failed_disconnects (trace st) \<longrightarrow>
      cleared (resetApp E st) \<and> wcClient (resetApp E st) = None \<and>
      resetApp E (resetApp E st) = resetApp E st) \<and>
   (failed_disconnects (trace (resetApp E st)) \<noteq> failed_disconnects (trace st) \<longrightarrow>
      (\<exists>e. last (trace (resetApp E st)) = LogError e) \<and>
      local_collections (resetApp E st) = local_collections st)"
proof (intro conjI impI)
  assume h: "quiet st \<or> (\<forall>c t. fst (disconnect E c t) = None) \<or>
    failed_disconnects (trace (resetApp E st)) = failed_disconnects (trace st)"
  then show c: "cleared (resetApp E st)" and w: "wcClient (resetApp E st) = None"
    using resetApp_quiet[of st E] resetApp_ok[of E st] resetApp_without_failure[of E st]
    by (auto simp: cleared_def)
  from resetApp_twice[OF c w] show "resetApp E (resetApp E st) = resetApp E st" .
next
  assume "failed_disconnects (trace (resetApp E st)) \<noteq> failed_disconnects (trace st)"
  from resetApp_with_failure[OF this]
  show "\<exists>e. last (trace (resetApp E st)) = LogError e"
    and "local_collections (resetApp E st) = local_collections st"
    by simp_all
qed

text \<open>
  C8, amended, on the sample controller. With the transport that disconnects, the five
  collections are empty after one reset and a second reset changes nothing. With the
  transport on which every call fails, the reset records the failed disconnect of the
  stored session, logs the failure and leaves the five collections as they were.
\<close>

theorem resetApp_clears_unless_disconnect_fails_witness:
  "(\<forall>c t. fst (disconnect sample_env c t) = None) \<and>
   sessions (resetApp sample_env sample_state) = [] \<and>
   sessionProposals (resetApp sample_env sample_state) = [] \<and>
   requests (resetApp sample_env sample_state) = [] \<and>
   results (resetApp sample_env sample_state) = [] \<and>
   accounts (resetApp sample_env sample_state) = [] \<and>
   resetApp sample_env (resetApp sample_env sample_state) = resetApp sample_env sample_state \<and>
   failed_disconnects (trace (resetApp sample_env_down sample_state)) =
     [(''6f2a'', Error ''No matching session'')] \<and>
   failed_disconnects (trace sample_state) = [] \<and>
   last (trace (resetApp sample_env_down sample_state)) = LogError (Error ''No matching session'') \<and>
   local_collections (resetApp sample_env_down sample_state) = local_collections sample_state"
proof -
  have h: "\<forall>c t. fst (disconnect sample_env c t) = None"
    by (simp add: sample_env_def)
  have f: "failed_disconnects (trace (resetApp sample_env_down sample_state)) =
             [(''6f2a'', Error ''No matching session'')]"
      "failed_disconnects (trace sample_state) = []"
      "last (trace (resetApp sample_env_down sample_state)) =
         LogError (Error ''No matching session'')"
    by (simp_all add: resetApp_def sample_state_def sample_env_down_def log_event_def)
  then have d: "failed_disconnects (trace (resetApp sample_env_down sample_state)) \<noteq>
                failed_disconnects (trace sample_state)"
    by simp
  from resetApp_clears_unless_disconnect_fails [of sample_state sample_env] h
    resetApp_clears_unless_disconnect_fails [of sample_state sample_env_down] d f
  show ?thesis by (simp add: cleared_def)
qed

end
